theory Spec2Isabelle
  imports Complex_Main "HOL-Library.Sublist"
begin

section \<open>Python strings\<close>

text \<open>
  Strings are lists of ASCII characters. The helpers only use a handful of \<open>str\<close>
  methods; each is written out here as Python defines it.
\<close>

text \<open>\<open>s.split(sep)\<close> for a one-character separator: never an empty list.\<close>

fun split_acc :: "char \<Rightarrow> string \<Rightarrow> string \<Rightarrow> string list" where
  "split_acc sep cur [] = [cur]"
| "split_acc sep cur (x # xs) =
     (if x = sep then cur # split_acc sep [] xs else split_acc sep (cur @ [x]) xs)"

definition split_char :: "char \<Rightarrow> string \<Rightarrow> string list" where
  "split_char sep s = split_acc sep [] s"

text \<open>\<open>str.isspace\<close> on ASCII, and \<open>s.strip()\<close>.\<close>

definition is_space :: "char \<Rightarrow> bool" where
  "is_space c = (c \<in> set [CHR 0x09, CHR 0x0A, CHR 0x0B, CHR 0x0C, CHR 0x0D,
                            CHR 0x1C, CHR 0x1D, CHR 0x1E, CHR 0x1F, CHR 0x20])"

definition strip_py :: "string \<Rightarrow> string" where
  "strip_py s = rev (dropWhile is_space (rev (dropWhile is_space s)))"

text \<open>\<open>s.startswith(p)\<close>.\<close>

definition startswith :: "string \<Rightarrow> string \<Rightarrow> bool" where
  "startswith s p = prefix p s"



text \<open>\<open>str(n)\<close> for an \<open>int\<close>: decimal digits, a leading minus sign when negative.\<close>

definition digit_char :: "nat \<Rightarrow> char" where
  "digit_char d = char_of (48 + d)"

function str_nat :: "nat \<Rightarrow> string" where
  "str_nat n = (if n < 10 then [digit_char n] else str_nat (n div 10) @ [digit_char (n mod 10)])"
  by pat_completeness auto
termination
  by (relation "measure id") auto

declare str_nat.simps [simp del]

definition str_int :: "int \<Rightarrow> string" where
  "str_int i = (if i < 0 then CHR ''-'' # str_nat (nat (- i)) else str_nat (nat i))"

section \<open>Exceptions\<close>

text \<open>
  The classes of \<open>base/exceptions.py\<close> that the helpers raise, with the arguments they
  are raised with, and the built-in exceptions that the modelled code can run into.
  \<open>FrameworkError\<close> stands for whatever the external \<open>RunCommandOrRaiseOnFailure\<close> raises.
\<close>

datatype error =
    RunCommandError string
  | AgentExecutionError string
  | EvaluationExecutionError string
  | HammerDbSetupError string
  | RunSQLScriptError string string
  | RunLoadTestError string string
  | FrameworkError string
  | FileNotFoundError string
  | JSONDecodeError
  | KeyError string
  | IndexError
  | TypeError
  | AttributeError
  | ValueError string
  | ZeroDivisionError

section \<open>Remote command execution\<close>

text \<open>
  A virtual machine is an external object; the helpers only pass it on and ask for its
  private address. Every remote call and every sleep is recorded in a trace. The remote
  side is a function of the history so far (the call being answered included): it either
  raises or returns the triple (status, stdout, stderr).
\<close>

record virtual_machine =
  vm_name :: string
  GetPrivateIp :: string

datatype event = Run virtual_machine string | RunShell virtual_machine string | Sleep nat

datatype response = Raises string | Returns int string string

type_synonym remote = "event list \<Rightarrow> response"

type_synonym 'a outcome = "(error + 'a) \<times> event list"

definition answer :: "remote \<Rightarrow> event list \<Rightarrow> (int \<times> string \<times> string) outcome" where
  "answer env tr =
     (case env tr of
        Raises m \<Rightarrow> (Inl (FrameworkError m), tr)
      | Returns st out err \<Rightarrow> (Inr (st, out, err), tr))"

definition RunCommandOrRaiseOnFailure ::
  "remote \<Rightarrow> virtual_machine \<Rightarrow> string \<Rightarrow> event list \<Rightarrow> (int \<times> string \<times> string) outcome" where
  "RunCommandOrRaiseOnFailure env vm cmd tr = answer env (tr @ [Run vm cmd])"

definition RunShellCommand ::
  "remote \<Rightarrow> virtual_machine \<Rightarrow> string \<Rightarrow> event list \<Rightarrow> (int \<times> string \<times> string) outcome" where
  "RunShellCommand env vm cmd tr = answer env (tr @ [RunShell vm cmd])"

text \<open>\<open>bct_test_utils.RunCommandOnVm\<close>; every caller leaves \<open>linux\<close> at its default.\<close>

definition RunCommandOnVm ::
  "remote \<Rightarrow> virtual_machine \<Rightarrow> string \<Rightarrow> bool \<Rightarrow> event list \<Rightarrow> (int \<times> string \<times> string) outcome" where
  "RunCommandOnVm env vm cmd linux tr =
     (if \<not> linux then RunCommandOrRaiseOnFailure env vm cmd tr
      else RunShellCommand env vm cmd tr)"

section \<open>Constants of \<open>sqlserveragent_test_constants.py\<close>\<close>

definition SQL_SERVER_AGENT_NAME :: string where
  "SQL_SERVER_AGENT_NAME = ''google-cloud-sql-server-agent''"


definition SQL_SERVER_AGENT_CONFIG_PATH_WINDOWS :: string where
  "SQL_SERVER_AGENT_CONFIG_PATH_WINDOWS =
     [CHR 0x27] @ ''C:'' @ [CHR 0x5C] @ ''Program Files'' @ [CHR 0x5C] @ ''Google'' @ [CHR 0x5C]
     @ ''google-cloud-sql-server-agent'' @ [CHR 0x5C] @ ''configuration.json'' @ [CHR 0x27]"

definition SQL_SERVER_AGENT_LOG_PATH_WINDOWS :: string where
  "SQL_SERVER_AGENT_LOG_PATH_WINDOWS =
     ''C:'' @ [CHR 0x5C] @ ''ProgramData'' @ [CHR 0x5C] @ ''Google'' @ [CHR 0x5C]
     @ ''google-cloud-sql-server-agent'' @ [CHR 0x5C] @ ''logs'' @ [CHR 0x5C]
     @ ''google-cloud-sql-server-agent.log''"



definition VM_ID_SUSE :: int where "VM_ID_SUSE = 3"

section \<open>\<open>AgentHelper\<close> (agent_helper.py)\<close>

record AgentHelper =
  ah_vm :: virtual_machine
  ah_windows :: bool
  ah_repo_version :: string
  ah_gce_bucket :: string
  ah_g3_file_path :: string

text \<open>The constructor; \<open>current_user\<close> is what \<open>bct_test_utils.GetCurrentUser()\<close> returns.\<close>

definition AgentHelper_init :: "string \<Rightarrow> virtual_machine \<Rightarrow> bool \<Rightarrow> string \<Rightarrow> AgentHelper" where
  "AgentHelper_init current_user vm windows repo_version =
     \<lparr> ah_vm = vm, ah_windows = windows, ah_repo_version = repo_version,
       ah_gce_bucket = ''sql-server-agent-integration'',
       ah_g3_file_path = ''gs://'' @ ''sql-server-agent-integration'' @ ''/'' @ current_user
         @ ''/google-cloud-sql-server-agent.exe'' \<rparr>"

subsection \<open>Service control\<close>

definition ServiceStatus_cmd :: "AgentHelper \<Rightarrow> string" where
  "ServiceStatus_cmd h =
     (if ah_windows h then ''$(Get-Service -Name'' @ '' '' @ SQL_SERVER_AGENT_NAME @ '').Status''
      else [])"

definition ServiceStatus :: "remote \<Rightarrow> AgentHelper \<Rightarrow> event list \<Rightarrow> string outcome" where
  "ServiceStatus env h tr =
     (case RunCommandOnVm env (ah_vm h) (ServiceStatus_cmd h) False tr of
        (Inl e, tr1) \<Rightarrow> (Inl e, tr1)
      | (Inr (_, status, err), tr1) \<Rightarrow>
          if err \<noteq> [] then (Inl (RunCommandError (''Failed to get service status: '' @ err)), tr1)
          else (case split_char CHR ''\<newline>'' status of
                  [] \<Rightarrow> (Inl IndexError, tr1)
                | first # _ \<Rightarrow> (Inr (strip_py first), tr1)))"

definition StopService_cmd :: "AgentHelper \<Rightarrow> string" where
  "StopService_cmd h =
     (if ah_windows h then ''Stop-Service -Name'' @ '' '' @ SQL_SERVER_AGENT_NAME else [])"

definition StopService :: "remote \<Rightarrow> AgentHelper \<Rightarrow> event list \<Rightarrow> unit outcome" where
  "StopService env h tr =
     (case RunCommandOnVm env (ah_vm h) (StopService_cmd h) False tr of
        (Inl e, tr1) \<Rightarrow> (Inl e, tr1)
      | (Inr (_, _, err), tr1) \<Rightarrow>
          if err \<noteq> [] then (Inl (AgentExecutionError (''Failed to stop service: '' @ err)), tr1)
          else (Inr (), tr1))"

definition DeleteLogFile_cmd :: "AgentHelper \<Rightarrow> string" where
  "DeleteLogFile_cmd h =
     (if ah_windows h then ''Remove-Item -Path'' @ '' '' @ SQL_SERVER_AGENT_LOG_PATH_WINDOWS
      else [])"

definition DeleteLogFile :: "remote \<Rightarrow> AgentHelper \<Rightarrow> event list \<Rightarrow> unit outcome" where
  "DeleteLogFile env h tr =
     (case RunCommandOnVm env (ah_vm h) (DeleteLogFile_cmd h) False tr of
        (Inl e, tr1) \<Rightarrow> (Inl e, tr1)
      | (Inr (_, _, err), tr1) \<Rightarrow>
          if err \<noteq> [] then (Inl (RunCommandError (''Failed to delete log: '' @ err)), tr1)
          else (Inr (), tr1))"

definition StartService_cmd :: "AgentHelper \<Rightarrow> string" where
  "StartService_cmd h =
     (if ah_windows h then ''Start-Service -Name'' @ '' '' @ SQL_SERVER_AGENT_NAME else [])"

text \<open>The last step of \<open>StartService\<close>: the start command and its stderr check.\<close>

definition StartService_start :: "remote \<Rightarrow> AgentHelper \<Rightarrow> event list \<Rightarrow> unit outcome" where
  "StartService_start env h tr =
     (case RunCommandOnVm env (ah_vm h) (StartService_cmd h) False tr of
        (Inl e, tr1) \<Rightarrow> (Inl e, tr1)
      | (Inr (_, _, err), tr1) \<Rightarrow>
          if err \<noteq> [] then (Inl (AgentExecutionError (''Failed to start service: '' @ err)), tr1)
          else (Inr (), tr1))"

definition StartService :: "remote \<Rightarrow> AgentHelper \<Rightarrow> event list \<Rightarrow> unit outcome" where
  "StartService env h tr =
     (case ServiceStatus env h tr of
        (Inl e, tr1) \<Rightarrow> (Inl e, tr1)
      | (Inr status, tr1) \<Rightarrow>
          if status = ''Running'' then
            (case StopService env h tr1 of
               (Inl e, tr2) \<Rightarrow> (Inl e, tr2)
             | (Inr _, tr2) \<Rightarrow>
                 (case DeleteLogFile env h tr2 of
                    (Inl e, tr3) \<Rightarrow> (Inl e, tr3)
                  | (Inr _, tr3) \<Rightarrow> StartService_start env h tr3))
          else StartService_start env h tr1)"

subsection \<open>Repository registration\<close>




subsection \<open>Log verification\<close>






subsection \<open>JSON values\<close>

text \<open>
  What \<open>json.loads\<close> returns. The parser itself is library code and is a parameter
  \<open>json_loads\<close> of the functions that call it; the subscripts applied to its result
  are modelled with the exceptions Python raises for each kind of value.
\<close>

datatype json =
    JNull
  | JBool bool
  | JNum rat
  | JStr string
  | JArr "json list"
  | JObj "(string \<times> json) list"

text \<open>\<open>v[key]\<close> for a string key.\<close>

fun getitem :: "json \<Rightarrow> string \<Rightarrow> error + json" where
  "getitem (JObj kvs) key = (case map_of kvs key of None \<Rightarrow> Inl (KeyError key) | Some v \<Rightarrow> Inr v)"
| "getitem _ key = Inl TypeError"

text \<open>\<open>v[0]\<close>.\<close>

fun getitem0 :: "json \<Rightarrow> error + json" where
  "getitem0 (JArr []) = Inl IndexError"
| "getitem0 (JArr (x # _)) = Inr x"
| "getitem0 (JStr []) = Inl IndexError"
| "getitem0 (JStr (c # _)) = Inr (JStr [c])"
| "getitem0 (JObj kvs) = Inl (KeyError ''0'')"
| "getitem0 _ = Inl TypeError"

definition and_then :: "error + 'a \<Rightarrow> ('a \<Rightarrow> error + 'b) \<Rightarrow> error + 'b" where
  "and_then r f = (case r of Inl e \<Rightarrow> Inl e | Inr x \<Rightarrow> f x)"

subsection \<open>Evaluation runs\<close>

definition ListEvaluations_cmd :: "string \<Rightarrow> string" where
  \<open>ListEvaluations_cmd endpoint =
     ''\<newline>''
     @ ''    $cred = gcloud auth application-default print-access-token\<newline>''
     @ ''    $headers = @'' @ ''{ "Authorization" = "Bearer $cred" }\<newline>''
     @ ''\<newline>''
     @ ''    try {\<newline>''
     @ ''      $Response =  Invoke-WebRequest -Method GET -Headers $headers -Uri "https://''
     @ endpoint
     @ ''/v1/projects/wlm-for-sqlserver-integration/locations/us-central1/evaluations" -UseBasicParsing | Select-Object -Expand Content\<newline>''
     @ ''      # This will only execute if the Invoke-WebRequest is successful.\<newline>''
     @ ''      $StatusCode = $Response.StatusCode\<newline>''
     @ ''      $Response\<newline>''
     @ ''    }\<newline>''
     @ ''    catch {\<newline>''
     @ ''      echo '### Inside catch ###'\<newline>''
     @ ''      $ErrorMessage = $_.Exception.Message\<newline>''
     @ ''      echo '## ErrorMessage ##' $ErrorMessage\<newline>''
     @ ''      $FailedItem = $_.Exception.ItemName\<newline>''
     @ ''      echo '## FailedItem ##' $FailedItem\<newline>''
     @ ''      $result = $_.Exception.Response.GetResponseStream()\<newline>''
     @ ''      echo '## result2 ##' $result\<newline>''
     @ ''      $reader = New-Object System.IO.StreamReader($result)\<newline>''
     @ ''      echo '## reader ##' $reader\<newline>''
     @ ''      $responseBody = $reader.ReadToEnd();\<newline>''
     @ ''      echo '## responseBody ##' $responseBody\<newline>''
     @ ''    }\<newline>''
     @ ''    ''\<close>

text \<open>\<open>evaluation_name.split('/')[-1]\<close>, an \<open>AttributeError\<close> unless the name is a string.\<close>

definition last_segment :: "json \<Rightarrow> error + string" where
  "last_segment v =
     (case v of
        JStr name \<Rightarrow>
          (case split_char CHR ''/'' name of [] \<Rightarrow> Inl IndexError | p # ps \<Rightarrow> Inr (last (p # ps)))
      | _ \<Rightarrow> Inl AttributeError)"

definition ListEvaluations ::
  "remote \<Rightarrow> (string \<Rightarrow> error + json) \<Rightarrow> virtual_machine \<Rightarrow> string \<Rightarrow> event list \<Rightarrow> string outcome" where
  "ListEvaluations env json_loads vm endpoint tr =
     (case RunCommandOnVm env vm (ListEvaluations_cmd endpoint) False tr of
        (Inl e, tr1) \<Rightarrow> (Inl e, tr1)
      | (Inr (_, out, err), tr1) \<Rightarrow>
          if err \<noteq> []
          then (Inl (EvaluationExecutionError (''Failed to list evaluations: '' @ err)), tr1)
          else
            (and_then (json_loads out) (\<lambda>response_json.
             and_then (getitem response_json ''evaluations'') (\<lambda>evaluations.
             and_then (getitem0 evaluations) (\<lambda>evaluation.
             and_then (getitem evaluation ''name'') (\<lambda>evaluation_name.
             last_segment evaluation_name)))), tr1))"

definition RunEvaluation_cmd :: "string \<Rightarrow> string \<Rightarrow> string \<Rightarrow> string" where
  \<open>RunEvaluation_cmd evaluation_id execution_id endpoint =
     ''Invoke-WebRequest -Method POST -Headers $headers -Uri''
     @ '' "https://'' @ endpoint
     @ ''/v1/projects/wlm-for-sqlserver-integration/locations/us-central1/evaluations/''
     @ evaluation_id @ ''/executions:run?execution_id='' @ execution_id @ ''"''
     @ '' -UseBasicParsing | Select-Object -Expand Content''\<close>

definition RunEvaluation ::
  "remote \<Rightarrow> virtual_machine \<Rightarrow> string \<Rightarrow> event list \<Rightarrow> unit outcome" where
  "RunEvaluation env vm cmd tr =
     (case RunCommandOnVm env vm cmd False tr of
        (Inl e, tr1) \<Rightarrow> (Inl e, tr1)
      | (Inr (_, out, err), tr1) \<Rightarrow>
          if err \<noteq> [] then (Inl (EvaluationExecutionError (''Failed to run evaluation: '' @ err)), tr1)
          else (Inr (), tr1))"

definition GetExecutionStatus_cmd :: "string \<Rightarrow> string \<Rightarrow> string \<Rightarrow> string" where
  \<open>GetExecutionStatus_cmd evaluation_id execution_id endpoint =
     ''Invoke-WebRequest -Method GET -Headers $headers -Uri''
     @ '' "https://'' @ endpoint
     @ ''/v1/projects/wlm-for-sqlserver-integration/locations/us-central1/evaluations/''
     @ evaluation_id @ ''/executions/'' @ execution_id @ ''"''
     @ '' -UseBasicParsing | Select-Object -Expand Content''\<close>

text \<open>One status request: the remote call and the check of its stderr.\<close>

definition get_status :: "remote \<Rightarrow> virtual_machine \<Rightarrow> string \<Rightarrow> event list \<Rightarrow> string outcome" where
  "get_status env vm cmd tr =
     (case RunCommandOnVm env vm cmd False tr of
        (Inl e, tr1) \<Rightarrow> (Inl e, tr1)
      | (Inr (_, out, err), tr1) \<Rightarrow>
          if err \<noteq> []
          then (Inl (EvaluationExecutionError (''Failed to get execution status: '' @ err)), tr1)
          else (Inr out, tr1))"

text \<open>
  The loop \<open>for i in range(0, 10)\<close> of \<open>_GetExecutionStatus\<close>, as a recursion over the
  list of the values of \<open>i\<close>; \<open>out\<close> is the output of the latest request.
\<close>

fun poll_loop ::
  "remote \<Rightarrow> (string \<Rightarrow> error + json) \<Rightarrow> virtual_machine \<Rightarrow> string \<Rightarrow> nat list \<Rightarrow> string
     \<Rightarrow> event list \<Rightarrow> json outcome" where
  "poll_loop env json_loads vm cmd [] out tr = (Inr (JStr ''FAILED''), tr)"
| "poll_loop env json_loads vm cmd (i # is) out tr =
     (case and_then (json_loads out) (\<lambda>execution_json. getitem execution_json ''state'') of
        Inl e \<Rightarrow> (Inl e, tr)
      | Inr execution_state \<Rightarrow>
          if execution_state = JStr ''RUNNING'' then
            (case get_status env vm cmd (tr @ [Sleep 60]) of
               (Inl e, tr1) \<Rightarrow> (Inl e, tr1)
             | (Inr out1, tr1) \<Rightarrow> poll_loop env json_loads vm cmd is out1 tr1)
          else (Inr execution_state, tr))"

definition GetExecutionStatus ::
  "remote \<Rightarrow> (string \<Rightarrow> error + json) \<Rightarrow> virtual_machine \<Rightarrow> string \<Rightarrow> event list \<Rightarrow> json outcome" where
  "GetExecutionStatus env json_loads vm cmd tr =
     (case get_status env vm cmd tr of
        (Inl e, tr1) \<Rightarrow> (Inl e, tr1)
      | (Inr out, tr1) \<Rightarrow> poll_loop env json_loads vm cmd [0..<10] out tr1)"

text \<open>\<open>AgentHelper._GetExecutionStatus\<close>: the command is empty unless the host is Windows.\<close>

definition AgentHelper_GetExecutionStatus ::
  "remote \<Rightarrow> (string \<Rightarrow> error + json) \<Rightarrow> AgentHelper \<Rightarrow> string \<Rightarrow> string \<Rightarrow> string
     \<Rightarrow> event list \<Rightarrow> json outcome" where
  "AgentHelper_GetExecutionStatus env json_loads h evaluation_id execution_id endpoint tr =
     GetExecutionStatus env json_loads (ah_vm h)
       (if ah_windows h then GetExecutionStatus_cmd evaluation_id execution_id endpoint else [])
       tr"

text \<open>The endpoint that \<open>VerifyEvaluationRun\<close> selects from the repository version.\<close>

definition endpoint_of :: "AgentHelper \<Rightarrow> string" where
  "endpoint_of h = (if ah_repo_version h = ''google3''
                    then ''autopush-workloadmanager.sandbox.googleapis.com''
                    else ''workloadmanager.googleapis.com'')"

text \<open>
  \<open>AgentHelper.VerifyEvaluationRun\<close>; \<open>execution_id\<close> is the text of the identifier
  that \<open>uuid.uuid4()\<close> draws.
\<close>

definition VerifyEvaluationRun ::
  "remote \<Rightarrow> (string \<Rightarrow> error + json) \<Rightarrow> string \<Rightarrow> AgentHelper \<Rightarrow> event list \<Rightarrow> unit outcome" where
  "VerifyEvaluationRun env json_loads execution_id h tr =
     (let endpoint = endpoint_of h in
      case ListEvaluations env json_loads (ah_vm h) endpoint tr of
        (Inl e, tr1) \<Rightarrow> (Inl e, tr1)
      | (Inr evaluation_id, tr1) \<Rightarrow>
          (case RunEvaluation env (ah_vm h)
                  (if ah_windows h then RunEvaluation_cmd evaluation_id execution_id endpoint else [])
                  tr1 of
             (Inl e, tr2) \<Rightarrow> (Inl e, tr2)
           | (Inr _, tr2) \<Rightarrow>
               (case AgentHelper_GetExecutionStatus env json_loads h evaluation_id execution_id
                       endpoint tr2 of
                  (Inl e, tr3) \<Rightarrow> (Inl e, tr3)
                | (Inr execution_status, tr3) \<Rightarrow>
                    if execution_status = JStr ''FAILED''
                    then (Inl (EvaluationExecutionError
                                (''Execution='' @ execution_id @ '' of Evaluation='' @ evaluation_id
                                 @ '' failed.'')), tr3)
                    else (Inr (), tr3))))"

section \<open>\<open>IntegrationHelper\<close> (integrationtest_helper.py)\<close>

record IntegrationHelper =
  ih_repo_version :: string
  ih_vm_win_local :: virtual_machine
  ih_vm_win_remote :: virtual_machine
  ih_vm_rhel :: virtual_machine
  ih_vm_suse :: virtual_machine
  ih_gce_bucket :: string
  ih_g3_file_path_win :: string
  ih_g3_file_path_linux :: string

definition IntegrationHelper_init ::
  "string \<Rightarrow> string \<Rightarrow> virtual_machine \<Rightarrow> virtual_machine \<Rightarrow> virtual_machine \<Rightarrow> virtual_machine
     \<Rightarrow> IntegrationHelper" where
  "IntegrationHelper_init current_user repo_version vm_win_local vm_win_remote vm_rhel vm_suse =
     \<lparr> ih_repo_version = repo_version, ih_vm_win_local = vm_win_local,
       ih_vm_win_remote = vm_win_remote, ih_vm_rhel = vm_rhel, ih_vm_suse = vm_suse,
       ih_gce_bucket = ''sql-server-agent-integration'',
       ih_g3_file_path_win = ''gs://'' @ ''sql-server-agent-integration'' @ ''/'' @ current_user
         @ ''/google-cloud-sql-server-agent.exe'',
       ih_g3_file_path_linux = ''gs://'' @ ''sql-server-agent-integration'' @ ''/'' @ current_user
         @ ''/google-cloud-sql-server-agent'' \<rparr>"









text \<open>\<open>IntegrationHelper._GetExecutionStatus\<close>: always on the local Windows host.\<close>

definition IntegrationHelper_GetExecutionStatus ::
  "remote \<Rightarrow> (string \<Rightarrow> error + json) \<Rightarrow> IntegrationHelper \<Rightarrow> string \<Rightarrow> string \<Rightarrow> string
     \<Rightarrow> event list \<Rightarrow> json outcome" where
  "IntegrationHelper_GetExecutionStatus env json_loads h evaluation_id execution_id endpoint tr =
     GetExecutionStatus env json_loads (ih_vm_win_local h)
       (GetExecutionStatus_cmd evaluation_id execution_id endpoint) tr"

section \<open>\<open>LoadtestHelper\<close> (loadtest_helper.py)\<close>

subsection \<open>Numbers\<close>

text \<open>
  \<open>int(s)\<close> on a string: surrounding whitespace is dropped, one sign is allowed, the
  digits may be grouped by single underscores. Anything else is a \<open>ValueError\<close>.
\<close>

definition is_digit :: "char \<Rightarrow> bool" where
  "is_digit c = (48 \<le> (of_char c :: nat) \<and> (of_char c :: nat) \<le> 57)"

fun valid_digits :: "string \<Rightarrow> bool" where
  "valid_digits [] = False"
| "valid_digits [c] = is_digit c"
| "valid_digits (c # d # r) =
     (is_digit c \<and> (if d = CHR ''_'' then valid_digits r else valid_digits (d # r)))"

definition nat_of_digits :: "string \<Rightarrow> nat" where
  "nat_of_digits ds = foldl (\<lambda>a c. 10 * a + (of_char c - 48)) 0 ds"

definition int_py :: "string \<Rightarrow> error + int" where
  "int_py s =
     (let t = strip_py s;
          (negative, body) =
            (case t of
               [] \<Rightarrow> (False, t)
             | c # r \<Rightarrow> if c = CHR ''-'' then (True, r)
                        else if c = CHR ''+'' then (False, r) else (False, t))
      in if valid_digits body
         then (let n = int (nat_of_digits (filter (\<lambda>c. c \<noteq> CHR ''_'') body))
               in Inr (if negative then - n else n))
         else Inl (ValueError s))"

text \<open>
  \<open>round(np.mean(xs))\<close> on a list of integers. The mean of an empty list is NaN, which
  \<open>round\<close> refuses with a \<open>ValueError\<close>. Otherwise the quotient is rounded to the nearest
  integer, a tie going to the even neighbour. The quotient is taken exactly; the
  double-precision value that numpy computes rounds to the same integer as long as the
  sum stays below \<open>2 ^ 52\<close> in absolute value.
\<close>

definition round_half_even :: "int \<Rightarrow> int \<Rightarrow> int" where
  "round_half_even s n =
     (let f = s div n; r = s mod n
      in if 2 * r < n then f
         else if n < 2 * r then f + 1
         else if even f then f else f + 1)"

definition round_mean :: "int list \<Rightarrow> error + int" where
  "round_mean xs =
     (if xs = [] then Inl (ValueError ''cannot convert float NaN to integer'')
      else Inr (round_half_even (sum_list xs) (int (length xs))))"

subsection \<open>The helper object\<close>

record LoadtestHelper =
  lt_vm_sqlserver :: virtual_machine
  lt_vm_hammerdb :: virtual_machine
  lt_hammerdb_path :: string
  lt_project_number :: string
  lt_secret_name :: string
  lt_background_job_name :: string
  lt_test_result_path :: string
  lt_raw_data_file_name_prefix :: string
  lt_raw_data_bucket_path_prefix :: string
  mean_trans_per_sec :: int
  mean_lock_reqs_per_sec :: int
  mean_lock_timeouts_per_sec :: int
  mean_lock_waits_per_sec :: int
  mean_deadlocks_per_sec :: int
  mean_wait_time :: int
  mean_latch_wait_time :: int
  mean_trans_per_sec_agent_installed :: int
  mean_lock_reqs_per_sec_agent_installed :: int
  mean_lock_timeouts_per_sec_agent_installed :: int
  mean_lock_waits_per_sec_agent_installed :: int
  mean_deadlocks_per_sec_agent_installed :: int
  mean_wait_time_agent_installed :: int
  mean_latch_wait_time_agent_installed :: int

text \<open>
  The constructor; \<open>current_time\<close> is the formatted time that
  \<open>datetime.datetime.now().strftime\<close> returns.
\<close>

definition LoadtestHelper_init ::
  "string \<Rightarrow> virtual_machine \<Rightarrow> virtual_machine \<Rightarrow> string \<Rightarrow> LoadtestHelper" where
  "LoadtestHelper_init current_time vm_sqlserver vm_hammerdb hammerdb_version =
     \<lparr> lt_vm_sqlserver = vm_sqlserver, lt_vm_hammerdb = vm_hammerdb,
       lt_hammerdb_path = ''C:'' @ [CHR 0x5C] @ ''Program Files'' @ [CHR 0x5C] @ ''HammerDB-''
         @ hammerdb_version,
       lt_project_number = ''670032142250'',
       lt_secret_name = ''integration-test-pswd'',
       lt_background_job_name = ''run-load-test-background'',
       lt_test_result_path = ''C:'' @ [CHR 0x5C] @ ''Windows'' @ [CHR 0x5C] @ ''Temp'' @ [CHR 0x5C]
         @ ''sqlPerf.log*'',
       lt_raw_data_file_name_prefix = ''loadtest-'' @ current_time,
       lt_raw_data_bucket_path_prefix = ''gs://sql-server-agent-integration/loadtest-rawdata/'',
       mean_trans_per_sec = 0, mean_lock_reqs_per_sec = 0, mean_lock_timeouts_per_sec = 0,
       mean_lock_waits_per_sec = 0, mean_deadlocks_per_sec = 0, mean_wait_time = 0,
       mean_latch_wait_time = 0, mean_trans_per_sec_agent_installed = 0,
       mean_lock_reqs_per_sec_agent_installed = 0,
       mean_lock_timeouts_per_sec_agent_installed = 0,
       mean_lock_waits_per_sec_agent_installed = 0,
       mean_deadlocks_per_sec_agent_installed = 0, mean_wait_time_agent_installed = 0,
       mean_latch_wait_time_agent_installed = 0 \<rparr>"

subsection \<open>HammerDB scripts\<close>







subsection \<open>Result files\<close>

definition GetLoadTestResult :: "remote \<Rightarrow> LoadtestHelper \<Rightarrow> event list \<Rightarrow> string outcome" where
  "GetLoadTestResult env h tr =
     (case RunCommandOrRaiseOnFailure env (lt_vm_sqlserver h)
             (''Get-Content -Path '' @ lt_test_result_path h @ '' -Encoding ascii'') tr of
        (Inl e, tr1) \<Rightarrow> (Inl e, tr1)
      | (Inr (_, out, err), tr1) \<Rightarrow>
          if err \<noteq> [] then (Inl (RunLoadTestError ''Error found while getting test result: '' err), tr1)
          else (Inr out, tr1))"



definition DeleteTestResult :: "remote \<Rightarrow> LoadtestHelper \<Rightarrow> event list \<Rightarrow> unit outcome" where
  "DeleteTestResult env h tr =
     (case RunCommandOrRaiseOnFailure env (lt_vm_sqlserver h)
             (''Remove-Item -Path '' @ lt_test_result_path h) tr of
        (Inl e, tr1) \<Rightarrow> (Inl e, tr1)
      | (Inr (_, out, err), tr1) \<Rightarrow>
          if err \<noteq> [] then (Inl (RunLoadTestError ''Error found while deleting test result: '' err), tr1)
          else (Inr (), tr1))"

subsection \<open>\<open>ProcessLoadTestResult\<close>\<close>

text \<open>The seven sample lists that \<open>ProcessLoadTestResult\<close> fills.\<close>

record samples =
  trans_per_sec :: "int list"
  lock_reqs_per_sec :: "int list"
  lock_timeouts_per_sec :: "int list"
  lock_waits_per_sec :: "int list"
  deadlocks_per_sec :: "int list"
  avg_wait_time :: "int list"
  avg_latch_wait_time :: "int list"

definition no_samples :: samples where
  "no_samples = \<lparr> trans_per_sec = [], lock_reqs_per_sec = [], lock_timeouts_per_sec = [],
     lock_waits_per_sec = [], deadlocks_per_sec = [], avg_wait_time = [],
     avg_latch_wait_time = [] \<rparr>"

text \<open>The loop over the rows: a row without exactly nine fields is skipped.\<close>

fun collect_rows :: "string list \<Rightarrow> samples \<Rightarrow> error + samples" where
  "collect_rows [] acc = Inr acc"
| "collect_rows (row # rest) acc =
     (let cols = split_char CHR '','' row in
      if length cols \<noteq> 9 then collect_rows rest acc
      else
        and_then (int_py (cols ! 0)) (\<lambda>c0.
        and_then (int_py (cols ! 3)) (\<lambda>c3.
        and_then (int_py (cols ! 4)) (\<lambda>c4.
        and_then (int_py (cols ! 5)) (\<lambda>c5.
        and_then (int_py (cols ! 6)) (\<lambda>c6.
        and_then (int_py (cols ! 7)) (\<lambda>c7.
        and_then (int_py (cols ! 8)) (\<lambda>c8.
          collect_rows rest
            \<lparr> trans_per_sec = trans_per_sec acc @ [c0],
              lock_reqs_per_sec = lock_reqs_per_sec acc @ [c3],
              lock_timeouts_per_sec = lock_timeouts_per_sec acc @ [c4],
              lock_waits_per_sec = lock_waits_per_sec acc @ [c5],
              deadlocks_per_sec = deadlocks_per_sec acc @ [c6],
              avg_wait_time = avg_wait_time acc @ [c7],
              avg_latch_wait_time = avg_latch_wait_time acc @ [c8] \<rparr>))))))))"

text \<open>The seven means, in the order in which the source computes them.\<close>

definition load_test_means :: "string \<Rightarrow> error + (int \<times> int \<times> int \<times> int \<times> int \<times> int \<times> int)" where
  "load_test_means out =
     (let result = tl (split_char CHR ''\<newline>'' out) in
      and_then (collect_rows result no_samples) (\<lambda>sm.
      and_then (round_mean (trans_per_sec sm)) (\<lambda>m_trans.
      and_then (round_mean (lock_reqs_per_sec sm)) (\<lambda>m_reqs.
      and_then (round_mean (lock_timeouts_per_sec sm)) (\<lambda>m_timeouts.
      and_then (round_mean (lock_waits_per_sec sm)) (\<lambda>m_waits.
      and_then (round_mean (deadlocks_per_sec sm)) (\<lambda>m_deadlocks.
      and_then (round_mean (avg_wait_time sm)) (\<lambda>m_wait.
      and_then (round_mean (avg_latch_wait_time sm)) (\<lambda>m_latch.
        Inr (m_trans, m_reqs, m_timeouts, m_waits, m_deadlocks, m_wait, m_latch))))))))))"

text \<open>
  \<open>ProcessLoadTestResult\<close> changes the helper object, so the object is returned next
  to the outcome: unchanged when an exception is raised before the assignments.
\<close>

definition ProcessLoadTestResult ::
  "remote \<Rightarrow> LoadtestHelper \<Rightarrow> bool \<Rightarrow> event list
     \<Rightarrow> (error + unit) \<times> LoadtestHelper \<times> event list" where
  "ProcessLoadTestResult env h agent_installed tr =
     (case GetLoadTestResult env h tr of
        (Inl e, tr1) \<Rightarrow> (Inl e, h, tr1)
      | (Inr out, tr1) \<Rightarrow>
          (case load_test_means out of
             Inl e \<Rightarrow> (Inl e, h, tr1)
           | Inr (m_trans, m_reqs, m_timeouts, m_waits, m_deadlocks, m_wait, m_latch) \<Rightarrow>
               (let h1 =
                  (if agent_installed then
                     h\<lparr> mean_trans_per_sec_agent_installed := m_trans,
                        mean_lock_reqs_per_sec_agent_installed := m_reqs,
                        mean_lock_timeouts_per_sec_agent_installed := m_timeouts,
                        mean_lock_waits_per_sec_agent_installed := m_waits,
                        mean_deadlocks_per_sec_agent_installed := m_deadlocks,
                        mean_wait_time_agent_installed := m_wait,
                        mean_latch_wait_time_agent_installed := m_latch \<rparr>
                   else
                     h\<lparr> mean_trans_per_sec := m_trans,
                        mean_lock_reqs_per_sec := m_reqs,
                        mean_lock_timeouts_per_sec := m_timeouts,
                        mean_lock_waits_per_sec := m_waits,
                        mean_deadlocks_per_sec := m_deadlocks,
                        mean_wait_time := m_wait,
                        mean_latch_wait_time := m_latch \<rparr>)
                in case DeleteTestResult env h1 tr1 of (r, tr2) \<Rightarrow> (r, h1, tr2))))"

subsection \<open>\<open>GenerateLoadTestResult\<close>\<close>

text \<open>
  \<open>a / b\<close> on two integers, formatted into the report. The division raises on a zero
  divisor; the text of the resulting float is library code and is the parameter
  \<open>float_text\<close>, a function of dividend and divisor.
\<close>

definition truediv_text :: "(int \<Rightarrow> int \<Rightarrow> string) \<Rightarrow> int \<Rightarrow> int \<Rightarrow> error + string" where
  "truediv_text float_text a b = (if b = 0 then Inl ZeroDivisionError else Inr (float_text a b))"

text \<open>The guarded statement \<open>if mean != 0: result += label + f' {diff * 100 / mean}\n'\<close>.\<close>

definition diff_line ::
  "(int \<Rightarrow> int \<Rightarrow> string) \<Rightarrow> string \<Rightarrow> int \<Rightarrow> int \<Rightarrow> string \<Rightarrow> error + string" where
  "diff_line float_text label diff mean result =
     (if mean \<noteq> 0
      then and_then (truediv_text float_text (diff * 100) mean)
             (\<lambda>q. Inr (result @ label @ '' '' @ q @ ''\<newline>''))
      else Inr result)"

text \<open>The report that \<open>GenerateLoadTestResult\<close> logs.\<close>

definition GenerateLoadTestResult :: "(int \<Rightarrow> int \<Rightarrow> string) \<Rightarrow> LoadtestHelper \<Rightarrow> error + string" where
  "GenerateLoadTestResult float_text h =
     (let diff_trans_per_sec = \<bar>mean_trans_per_sec h - mean_trans_per_sec_agent_installed h\<bar>;
          diff_lock_reqs_per_sec =
            \<bar>mean_lock_reqs_per_sec h - mean_lock_reqs_per_sec_agent_installed h\<bar>;
          diff_lock_timeouts_per_sec =
            \<bar>mean_lock_timeouts_per_sec h - mean_lock_timeouts_per_sec_agent_installed h\<bar>;
          diff_lock_waits_per_sec =
            \<bar>mean_lock_waits_per_sec h - mean_lock_waits_per_sec_agent_installed h\<bar>;
          diff_deadlocks_per_sec =
            \<bar>mean_deadlocks_per_sec h - mean_deadlocks_per_sec_agent_installed h\<bar>;
          diff_wait_time = \<bar>mean_wait_time h - mean_wait_time_agent_installed h\<bar>;
          diff_latch_wait_time =
            \<bar>mean_latch_wait_time h - mean_latch_wait_time_agent_installed h\<bar>;
          result = [];
          result = result @ ''mean_trans_per_sec: '' @ str_int (mean_trans_per_sec h) @ ''\<newline>'';
          result = result @ ''mean_trans_per_sec_agent_installed:''
                   @ '' '' @ str_int (mean_trans_per_sec_agent_installed h) @ ''\<newline>''
      in
      and_then (diff_line float_text ''diff_trans_per_sec:'' diff_trans_per_sec
                  (mean_trans_per_sec h) result) (\<lambda>result.
      let result = result @ ''mean_lock_reqs_per_sec: '' @ str_int (mean_lock_reqs_per_sec h)
                   @ ''\<newline>'';
          result = result @ ''mean_lock_reqs_per_sec_agent_installed:''
                   @ '' '' @ str_int (mean_lock_waits_per_sec_agent_installed h) @ ''\<newline>''
      in
      and_then (diff_line float_text ''diff_lock_reqs_per_sec:'' diff_lock_reqs_per_sec
                  (mean_lock_reqs_per_sec h) result) (\<lambda>result.
      let result = result @ ''mean_lock_timeouts_per_sec: ''
                   @ str_int (mean_lock_timeouts_per_sec h) @ ''\<newline>'';
          result = result @ ''mean_lock_timeouts_per_sec_agent_installed:''
                   @ '' '' @ str_int (mean_lock_timeouts_per_sec_agent_installed h) @ ''\<newline>''
      in
      and_then (diff_line float_text ''diff_lock_timeouts_per_sec:'' diff_lock_timeouts_per_sec
                  (mean_lock_timeouts_per_sec h) result) (\<lambda>result.
      let result = result @ ''mean_lock_waits_per_sec: '' @ str_int (mean_lock_waits_per_sec h)
                   @ ''\<newline>'';
          result = result @ ''mean_lock_waits_per_sec_agent_installed:''
                   @ '' '' @ str_int (mean_lock_waits_per_sec_agent_installed h) @ ''\<newline>''
      in
      and_then (diff_line float_text ''diff_lock_waits_per_sec:'' diff_lock_waits_per_sec
                  (mean_lock_waits_per_sec h) result) (\<lambda>result.
      let result = result @ ''mean_deadlocks_per_sec: '' @ str_int (mean_deadlocks_per_sec h)
                   @ ''\<newline>'';
          result = result @ ''mean_deadlocks_per_sec_agent_installed:''
                   @ '' '' @ str_int (mean_deadlocks_per_sec_agent_installed h) @ ''\<newline>''
      in
      and_then (diff_line float_text ''diff_deadlocks_per_sec:'' diff_deadlocks_per_sec
                  (mean_deadlocks_per_sec h) result) (\<lambda>result.
      let result = result @ ''mean_wait_time: '' @ str_int (mean_wait_time h) @ ''\<newline>'';
          result = result @ ''mean_wait_time_agent_installed:''
                   @ '' '' @ str_int (mean_wait_time_agent_installed h) @ ''\<newline>''
      in
      and_then (diff_line float_text ''diff_wait_time:'' diff_wait_time
                  (mean_wait_time h) result) (\<lambda>result.
      let result = result @ ''mean_latch_wait_time: '' @ str_int (mean_latch_wait_time h)
                   @ ''\<newline>'';
          result = result @ ''mean_latch_wait_time_agent_installed:''
                   @ '' '' @ str_int (mean_latch_wait_time_agent_installed h) @ ''\<newline>''
      in
      diff_line float_text ''diff_latch_wait_time:'' diff_latch_wait_time
        (mean_latch_wait_time h) result)))))))"

section \<open>Traces\<close>

text \<open>Counting the remote calls and the sleeps of a trace.\<close>

fun is_call :: "event \<Rightarrow> bool" where
  "is_call (Run vm cmd) = True"
| "is_call (RunShell vm cmd) = True"
| "is_call (Sleep n) = False"

definition count_calls :: "event list \<Rightarrow> nat" where
  "count_calls tr = length (filter is_call tr)"

definition count_sleeps :: "event list \<Rightarrow> nat" where
  "count_sleeps tr = length (filter (\<lambda>e. \<not> is_call e) tr)"

text \<open>
  The events of \<open>j\<close> further rounds of the polling loop: a sleep of 60 seconds, then
  the status request.
\<close>

definition polls :: "virtual_machine \<Rightarrow> string \<Rightarrow> nat \<Rightarrow> event list" where
  "polls vm cmd j = concat (replicate j [Sleep 60, Run vm cmd])"

text \<open>\<open>json.loads(out)['state']\<close>, as the polling loop computes it.\<close>

definition state_of :: "(string \<Rightarrow> error + json) \<Rightarrow> string \<Rightarrow> error + json" where
  "state_of json_loads out = and_then (json_loads out) (\<lambda>execution_json. getitem execution_json ''state'')"

section \<open>Example objects and reference descriptions\<close>

text \<open>Concrete machines and helpers, used where a property is evaluated on an input.\<close>

definition example_vm :: virtual_machine where
  "example_vm = \<lparr> vm_name = ''sqlserver'', GetPrivateIp = ''10.0.0.2'' \<rparr>"

definition example_agent :: AgentHelper where
  "example_agent = AgentHelper_init ''tester'' example_vm True ''stable''"

text \<open>
  A remote side that answers the \<open>n\<close>-th call with the \<open>n\<close>-th (stdout, stderr) pair of a
  list, and raises once the list is used up.
\<close>

definition scripted :: "(string \<times> string) list \<Rightarrow> remote" where
  "scripted rs tr =
     (let n = count_calls tr in
      if 0 < n \<and> n \<le> length rs
      then (case rs ! (n - 1) of (out, err) \<Rightarrow> Returns 0 out err)
      else Raises ''unexpected call'')"

text \<open>A decoder for the three response bodies that the examples use.\<close>

definition example_loads :: "string \<Rightarrow> error + json" where
  \<open>example_loads s =
     (if s = ''{"state": "RUNNING"}'' then Inr (JObj [(''state'', JStr ''RUNNING'')])
      else if s = ''{"state": "SUCCEEDED"}'' then Inr (JObj [(''state'', JStr ''SUCCEEDED'')])
      else if s = ''{"evaluations": [{"name": "projects/p/locations/l/evaluations/ev1"}]}''
      then Inr (JObj [(''evaluations'',
                  JArr [JObj [(''name'', JStr ''projects/p/locations/l/evaluations/ev1'')]])])
      else Inl JSONDecodeError)\<close>

definition example_integration :: IntegrationHelper where
  "example_integration =
     IntegrationHelper_init ''tester'' ''stable'' example_vm
       \<lparr> vm_name = ''win-remote'', GetPrivateIp = ''10.0.0.3'' \<rparr>
       \<lparr> vm_name = ''rhel'', GetPrivateIp = ''10.0.0.4'' \<rparr>
       \<lparr> vm_name = ''suse'', GetPrivateIp = ''10.0.0.5'' \<rparr>"

definition running_body :: string where
  \<open>running_body = ''{"state": "RUNNING"}''\<close>

definition always_running :: remote where
  "always_running tr = Returns 0 running_body []"

definition succeeded_body :: string where
  \<open>succeeded_body = ''{"state": "SUCCEEDED"}''\<close>

definition list_body :: string where
  \<open>list_body = ''{"evaluations": [{"name": "projects/p/locations/l/evaluations/ev1"}]}''\<close>

definition example_script :: "(string \<times> string) list" where
  "example_script = [(list_body, []), ([], []), (running_body, []), (running_body, []),
                     (succeeded_body, [])]"

subsection \<open>Log check\<close>





subsection \<open>Further example objects\<close>



definition example_loadtest :: LoadtestHelper where
  "example_loadtest =
     LoadtestHelper_init ''2024-05-01-10-00-00'' example_vm
       \<lparr> vm_name = ''hammerdb'', GetPrivateIp = ''10.0.0.6'' \<rparr> ''4.5''"




subsection \<open>Escaped text\<close>


subsection \<open>Aggregation\<close>

text \<open>
  The aggregation as the specification words it: after the header line, the rows with
  exactly nine comma-separated fields are retained; the columns 0 and 3 to 8 of the
  retained rows are parsed as integers; each recorded mean is the arithmetic mean of its
  column, rounded to a nearest integer.
\<close>

definition nine_fields :: "string \<Rightarrow> bool" where
  "nine_fields row = (length (split_char CHR '','' row) = 9)"








subsection \<open>Report lines\<close>

text \<open>
  The lines that the report is expected to consist of, in order: for each metric the two
  mean lines, then the percentage line, present only when the baseline mean is not zero.
  The second line of the lock-requests block is the one the source writes, with the
  lock-waits value.
\<close>

definition optional_line :: "bool \<Rightarrow> string \<Rightarrow> string list" where
  "optional_line present line = (if present then [line] else [])"

definition report_lines :: "(int \<Rightarrow> int \<Rightarrow> string) \<Rightarrow> LoadtestHelper \<Rightarrow> string list" where
  "report_lines float_text h =
     [''mean_trans_per_sec: '' @ str_int (mean_trans_per_sec h),
      ''mean_trans_per_sec_agent_installed: '' @ str_int (mean_trans_per_sec_agent_installed h)]
     @ optional_line (mean_trans_per_sec h \<noteq> 0)
         (''diff_trans_per_sec: ''
          @ float_text (\<bar>mean_trans_per_sec h - mean_trans_per_sec_agent_installed h\<bar> * 100)
              (mean_trans_per_sec h))
     @ [''mean_lock_reqs_per_sec: '' @ str_int (mean_lock_reqs_per_sec h),
        ''mean_lock_reqs_per_sec_agent_installed: ''
        @ str_int (mean_lock_waits_per_sec_agent_installed h)]
     @ optional_line (mean_lock_reqs_per_sec h \<noteq> 0)
         (''diff_lock_reqs_per_sec: ''
          @ float_text
              (\<bar>mean_lock_reqs_per_sec h - mean_lock_reqs_per_sec_agent_installed h\<bar> * 100)
              (mean_lock_reqs_per_sec h))
     @ [''mean_lock_timeouts_per_sec: '' @ str_int (mean_lock_timeouts_per_sec h),
        ''mean_lock_timeouts_per_sec_agent_installed: ''
        @ str_int (mean_lock_timeouts_per_sec_agent_installed h)]
     @ optional_line (mean_lock_timeouts_per_sec h \<noteq> 0)
         (''diff_lock_timeouts_per_sec: ''
          @ float_text
              (\<bar>mean_lock_timeouts_per_sec h - mean_lock_timeouts_per_sec_agent_installed h\<bar> * 100)
              (mean_lock_timeouts_per_sec h))
     @ [''mean_lock_waits_per_sec: '' @ str_int (mean_lock_waits_per_sec h),
        ''mean_lock_waits_per_sec_agent_installed: ''
        @ str_int (mean_lock_waits_per_sec_agent_installed h)]
     @ optional_line (mean_lock_waits_per_sec h \<noteq> 0)
         (''diff_lock_waits_per_sec: ''
          @ float_text
              (\<bar>mean_lock_waits_per_sec h - mean_lock_waits_per_sec_agent_installed h\<bar> * 100)
              (mean_lock_waits_per_sec h))
     @ [''mean_deadlocks_per_sec: '' @ str_int (mean_deadlocks_per_sec h),
        ''mean_deadlocks_per_sec_agent_installed: ''
        @ str_int (mean_deadlocks_per_sec_agent_installed h)]
     @ optional_line (mean_deadlocks_per_sec h \<noteq> 0)
         (''diff_deadlocks_per_sec: ''
          @ float_text
              (\<bar>mean_deadlocks_per_sec h - mean_deadlocks_per_sec_agent_installed h\<bar> * 100)
              (mean_deadlocks_per_sec h))
     @ [''mean_wait_time: '' @ str_int (mean_wait_time h),
        ''mean_wait_time_agent_installed: '' @ str_int (mean_wait_time_agent_installed h)]
     @ optional_line (mean_wait_time h \<noteq> 0)
         (''diff_wait_time: ''
          @ float_text (\<bar>mean_wait_time h - mean_wait_time_agent_installed h\<bar> * 100)
              (mean_wait_time h))
     @ [''mean_latch_wait_time: '' @ str_int (mean_latch_wait_time h),
        ''mean_latch_wait_time_agent_installed: ''
        @ str_int (mean_latch_wait_time_agent_installed h)]
     @ optional_line (mean_latch_wait_time h \<noteq> 0)
         (''diff_latch_wait_time: ''
          @ float_text
              (\<bar>mean_latch_wait_time h - mean_latch_wait_time_agent_installed h\<bar> * 100)
              (mean_latch_wait_time h))"

definition join_lines :: "string list \<Rightarrow> string" where
  "join_lines ls = concat (map (\<lambda>l. l @ ''\<newline>'') ls)"

text \<open>
  A stand-in for the text of a float in the examples: the quotient with one decimal,
  truncated.
\<close>

definition example_float_text :: "int \<Rightarrow> int \<Rightarrow> string" where
  "example_float_text a b = str_int (a div b) @ ''.'' @ str_nat (nat (a * 10 div b mod 10))"

definition example_means :: LoadtestHelper where
  "example_means = example_loadtest
     \<lparr> mean_trans_per_sec := 200, mean_lock_reqs_per_sec := 0, mean_wait_time := 12,
       mean_trans_per_sec_agent_installed := 150, mean_lock_reqs_per_sec_agent_installed := 7,
       mean_lock_waits_per_sec_agent_installed := 3, mean_wait_time_agent_installed := 15 \<rparr>"

section \<open>Properties\<close>

subsection \<open>Remote calls\<close>

lemma RunCommandOnVm_trace:
  "snd (RunCommandOnVm env vm cmd False tr) = tr @ [Run vm cmd]"
  by (simp add: RunCommandOnVm_def RunCommandOrRaiseOnFailure_def answer_def split: response.splits)

lemma RunCommandOnVm_Returns:
  "env (tr @ [Run vm cmd]) = Returns st out err \<Longrightarrow>
   RunCommandOnVm env vm cmd False tr = (Inr (st, out, err), tr @ [Run vm cmd])"
  by (simp add: RunCommandOnVm_def RunCommandOrRaiseOnFailure_def answer_def)

lemma RunCommandOnVm_Raises:
  "env (tr @ [Run vm cmd]) = Raises m \<Longrightarrow>
   RunCommandOnVm env vm cmd False tr = (Inl (FrameworkError m), tr @ [Run vm cmd])"
  by (simp add: RunCommandOnVm_def RunCommandOrRaiseOnFailure_def answer_def)

lemma ServiceStatus_trace: "snd (ServiceStatus env h tr) = tr @ [Run (ah_vm h) (ServiceStatus_cmd h)]"
  by (cases "env (tr @ [Run (ah_vm h) (ServiceStatus_cmd h)])")
     (simp_all add: ServiceStatus_def RunCommandOnVm_Returns RunCommandOnVm_Raises split: list.splits)

lemma StopService_trace: "snd (StopService env h tr) = tr @ [Run (ah_vm h) (StopService_cmd h)]"
  by (cases "env (tr @ [Run (ah_vm h) (StopService_cmd h)])")
     (simp_all add: StopService_def RunCommandOnVm_Returns RunCommandOnVm_Raises)

lemma DeleteLogFile_trace: "snd (DeleteLogFile env h tr) = tr @ [Run (ah_vm h) (DeleteLogFile_cmd h)]"
  by (cases "env (tr @ [Run (ah_vm h) (DeleteLogFile_cmd h)])")
     (simp_all add: DeleteLogFile_def RunCommandOnVm_Returns RunCommandOnVm_Raises)

lemma StartService_start_trace:
  "snd (StartService_start env h tr) = tr @ [Run (ah_vm h) (StartService_cmd h)]"
  by (cases "env (tr @ [Run (ah_vm h) (StartService_cmd h)])")
     (simp_all add: StartService_start_def RunCommandOnVm_Returns RunCommandOnVm_Raises)

lemma StopService_ok:
  "fst (StopService env h tr) = Inr () \<longleftrightarrow>
   (\<exists>st out. env (tr @ [Run (ah_vm h) (StopService_cmd h)]) = Returns st out [])"
  by (cases "env (tr @ [Run (ah_vm h) (StopService_cmd h)])")
     (simp_all add: StopService_def RunCommandOnVm_Returns RunCommandOnVm_Raises)

lemma DeleteLogFile_ok:
  "fst (DeleteLogFile env h tr) = Inr () \<longleftrightarrow>
   (\<exists>st out. env (tr @ [Run (ah_vm h) (DeleteLogFile_cmd h)]) = Returns st out [])"
  by (cases "env (tr @ [Run (ah_vm h) (DeleteLogFile_cmd h)])")
     (simp_all add: DeleteLogFile_def RunCommandOnVm_Returns RunCommandOnVm_Raises)

subsection \<open>\<open>StartService\<close>\<close>

text \<open>
  C8. \<open>StartService\<close> first asks for the service status. When the status is not
  \<open>Running\<close>, the only further command is the start command. When it is \<open>Running\<close>,
  the commands that follow are the stop command, then the log-file delete command, then
  the start command, in this order: the sequence is cut short only where a command
  fails, it is complete whenever the operation succeeds, and it is complete whenever
  the stop and the delete command return with an empty stderr.
\<close>

theorem StartService_command_order:
  assumes st: "ServiceStatus env h tr = (Inr status, tr1)"
  defines "stop \<equiv> Run (ah_vm h) (StopService_cmd h)"
      and "del \<equiv> Run (ah_vm h) (DeleteLogFile_cmd h)"
      and "start \<equiv> Run (ah_vm h) (StartService_cmd h)"
  shows "tr1 = tr @ [Run (ah_vm h) (ServiceStatus_cmd h)] \<and>
         (status \<noteq> ''Running'' \<longrightarrow> snd (StartService env h tr) = tr1 @ [start]) \<and>
         (status = ''Running'' \<longrightarrow>
            snd (StartService env h tr) \<in> {tr1 @ [stop], tr1 @ [stop, del], tr1 @ [stop, del, start]} \<and>
            (fst (StartService env h tr) = Inr () \<longrightarrow>
               snd (StartService env h tr) = tr1 @ [stop, del, start]) \<and>
            ((\<exists>a b c d. env (tr1 @ [stop]) = Returns a b [] \<and> env (tr1 @ [stop, del]) = Returns c d [])
               \<longrightarrow> snd (StartService env h tr) = tr1 @ [stop, del, start]))"
proof (intro conjI impI)
  show "tr1 = tr @ [Run (ah_vm h) (ServiceStatus_cmd h)]"
    using st ServiceStatus_trace [of env h tr] by simp
  show "snd (StartService env h tr) = tr1 @ [start]" if "status \<noteq> ''Running''"
    using st that by (simp add: StartService_def StartService_start_trace start_def)
  show "snd (StartService env h tr) \<in> {tr1 @ [stop], tr1 @ [stop, del], tr1 @ [stop, del, start]}"
    if "status = ''Running''"
    using st that StopService_trace [of env h tr1]
      DeleteLogFile_trace [of env h "tr1 @ [stop]"]
      StartService_start_trace [of env h "tr1 @ [stop, del]"]
    by (auto simp add: StartService_def stop_def del_def start_def split: prod.splits sum.splits)
  show "snd (StartService env h tr) = tr1 @ [stop, del, start]"
    if "status = ''Running''" "fst (StartService env h tr) = Inr ()"
    using st that StopService_trace [of env h tr1]
      DeleteLogFile_trace [of env h "tr1 @ [stop]"]
      StartService_start_trace [of env h "tr1 @ [stop, del]"]
    by (auto simp add: StartService_def stop_def del_def start_def split: prod.splits sum.splits)
  show "snd (StartService env h tr) = tr1 @ [stop, del, start]"
    if "status = ''Running''"
       "\<exists>a b c d. env (tr1 @ [stop]) = Returns a b [] \<and> env (tr1 @ [stop, del]) = Returns c d []"
    using st that StopService_trace [of env h tr1] StopService_ok [of env h tr1]
      DeleteLogFile_trace [of env h "tr1 @ [stop]"] DeleteLogFile_ok [of env h "tr1 @ [stop]"]
      StartService_start_trace [of env h "tr1 @ [stop, del]"]
    by (auto simp add: StartService_def stop_def del_def start_def split: prod.splits sum.splits)
qed

theorem StartService_command_order_witness:
  "ServiceStatus (\<lambda>_. Returns 0 ''Running'' []) example_agent []
     = (Inr ''Running'', [Run example_vm (ServiceStatus_cmd example_agent)]) \<and>
   StartService (\<lambda>_. Returns 0 ''Running'' []) example_agent []
     = (Inr (), [Run example_vm ''$(Get-Service -Name google-cloud-sql-server-agent).Status'',
         Run example_vm ''Stop-Service -Name google-cloud-sql-server-agent'',
         Run example_vm (''Remove-Item -Path '' @ SQL_SERVER_AGENT_LOG_PATH_WINDOWS),
         Run example_vm ''Start-Service -Name google-cloud-sql-server-agent''])"
proof -
  have vm: "ah_vm example_agent = example_vm" and w: "ah_windows example_agent"
    by (simp_all add: example_agent_def AgentHelper_init_def)
  have h: "ServiceStatus (\<lambda>_. Returns 0 ''Running'' []) example_agent []
     = (Inr ''Running'', [Run example_vm (ServiceStatus_cmd example_agent)])"
    by (simp add: ServiceStatus_def RunCommandOnVm_Returns vm split_char_def strip_py_def is_space_def)
  have ok: "fst (StartService (\<lambda>_. Returns 0 ''Running'' []) example_agent []) = Inr ()"
    by (simp add: StartService_def h StopService_def DeleteLogFile_def StartService_start_def
        RunCommandOnVm_Returns)
  from StartService_command_order [OF h] ok
  have "snd (StartService (\<lambda>_. Returns 0 ''Running'' []) example_agent []) =
      [Run example_vm (ServiceStatus_cmd example_agent)] @
      [Run (ah_vm example_agent) (StopService_cmd example_agent),
       Run (ah_vm example_agent) (DeleteLogFile_cmd example_agent),
       Run (ah_vm example_agent) (StartService_cmd example_agent)]"
    by blast
  with ok h show ?thesis
    by (simp add: prod_eq_iff vm w ServiceStatus_cmd_def StopService_cmd_def DeleteLogFile_cmd_def
        StartService_cmd_def SQL_SERVER_AGENT_NAME_def)
qed

subsection \<open>The polling loop\<close>

lemma get_status_Returns:
  "env (tr @ [Run vm cmd]) = Returns st out [] \<Longrightarrow>
   get_status env vm cmd tr = (Inr out, tr @ [Run vm cmd])"
  by (simp add: get_status_def RunCommandOnVm_Returns)

lemma polls_Suc: "polls vm cmd (Suc j) = Sleep 60 # Run vm cmd # polls vm cmd j"
  by (simp add: polls_def)

lemma polls_0: "polls vm cmd 0 = []"
  by (simp add: polls_def)

lemma count_calls_polls: "count_calls (polls vm cmd j) = j"
  by (induction j) (simp_all add: polls_Suc polls_0 count_calls_def)

lemma count_sleeps_polls: "count_sleeps (polls vm cmd j) = j"
  by (induction j) (simp_all add: polls_Suc polls_0 count_sleeps_def)

lemma count_calls_append: "count_calls (xs @ ys) = count_calls xs + count_calls ys"
  by (simp add: count_calls_def)

lemma count_sleeps_append: "count_sleeps (xs @ ys) = count_sleeps xs + count_sleeps ys"
  by (simp add: count_sleeps_def)

lemma count_calls_Cons:
  "count_calls (e # tr) = (if is_call e then Suc (count_calls tr) else count_calls tr)"
  by (simp add: count_calls_def)

lemma count_sleeps_Cons:
  "count_sleeps (e # tr) = (if is_call e then count_sleeps tr else Suc (count_sleeps tr))"
  by (simp add: count_sleeps_def)

lemma poll_loop_terminal:
  assumes "k < length is"
    and "\<forall>j<k. state_of json_loads (outs j) = Inr (JStr ''RUNNING'')"
    and "\<forall>j<k. \<exists>st. env (tr @ polls vm cmd (Suc j)) = Returns st (outs (Suc j)) []"
    and "state_of json_loads (outs k) = Inr s"
    and "s \<noteq> JStr ''RUNNING''"
  shows "poll_loop env json_loads vm cmd is (outs 0) tr = (Inr s, tr @ polls vm cmd k)"
  using assms
proof (induction "is" arbitrary: k outs tr)
  case Nil
  then show ?case by simp
next
  case (Cons i "is")
  show ?case
  proof (cases k)
    case 0
    with Cons.prems show ?thesis
      by (simp add: state_of_def polls_0)
  next
    case (Suc k')
    from Cons.prems(2) Suc have run0: "state_of json_loads (outs 0) = Inr (JStr ''RUNNING'')"
      by simp
    from Cons.prems(3) Suc obtain st where
      "env (tr @ polls vm cmd (Suc 0)) = Returns st (outs (Suc 0)) []"
      by auto
    then have gs: "get_status env vm cmd (tr @ [Sleep 60]) =
        (Inr (outs (Suc 0)), tr @ [Sleep 60, Run vm cmd])"
      using get_status_Returns [of env "tr @ [Sleep 60]" vm cmd st "outs (Suc 0)"]
      by (simp add: polls_Suc polls_0)
    have ih: "poll_loop env json_loads vm cmd is ((outs \<circ> Suc) 0) (tr @ [Sleep 60, Run vm cmd])
        = (Inr s, (tr @ [Sleep 60, Run vm cmd]) @ polls vm cmd k')"
    proof (rule Cons.IH)
      show "k' < length is" using Cons.prems(1) Suc by simp
      show "\<forall>j<k'. state_of json_loads ((outs \<circ> Suc) j) = Inr (JStr ''RUNNING'')"
        using Cons.prems(2) Suc by simp
      show "\<forall>j<k'. \<exists>st. env ((tr @ [Sleep 60, Run vm cmd]) @ polls vm cmd (Suc j))
          = Returns st ((outs \<circ> Suc) (Suc j)) []"
      proof (intro allI impI)
        fix j assume "j < k'"
        then have "Suc j < k" using Suc by simp
        with Cons.prems(3) obtain st where
          "env (tr @ polls vm cmd (Suc (Suc j))) = Returns st (outs (Suc (Suc j))) []"
          by blast
        then show "\<exists>st. env ((tr @ [Sleep 60, Run vm cmd]) @ polls vm cmd (Suc j))
          = Returns st ((outs \<circ> Suc) (Suc j)) []"
          by (simp add: polls_Suc)
      qed
      show "state_of json_loads ((outs \<circ> Suc) k') = Inr s"
        using Cons.prems(4) Suc by simp
      show "s \<noteq> JStr ''RUNNING''" by (rule Cons.prems(5))
    qed
    from run0 have "and_then (json_loads (outs 0)) (\<lambda>execution_json. getitem execution_json ''state'')
        = Inr (JStr ''RUNNING'')"
      by (simp add: state_of_def)
    then show ?thesis
      using gs ih Suc by (simp add: polls_Suc)
  qed
qed

lemma poll_loop_exhausted:
  assumes "\<forall>j<length is. state_of json_loads (outs j) = Inr (JStr ''RUNNING'')"
    and "\<forall>j<length is. \<exists>st. env (tr @ polls vm cmd (Suc j)) = Returns st (outs (Suc j)) []"
  shows "poll_loop env json_loads vm cmd is (outs 0) tr
           = (Inr (JStr ''FAILED''), tr @ polls vm cmd (length is))"
  using assms
proof (induction "is" arbitrary: outs tr)
  case Nil
  then show ?case by (simp add: polls_0)
next
  case (Cons i "is")
  from Cons.prems(1) have run0: "state_of json_loads (outs 0) = Inr (JStr ''RUNNING'')"
    by simp
  from Cons.prems(2) obtain st where
    "env (tr @ polls vm cmd (Suc 0)) = Returns st (outs (Suc 0)) []"
    by auto
  then have gs: "get_status env vm cmd (tr @ [Sleep 60]) =
      (Inr (outs (Suc 0)), tr @ [Sleep 60, Run vm cmd])"
    using get_status_Returns [of env "tr @ [Sleep 60]" vm cmd st "outs (Suc 0)"]
    by (simp add: polls_Suc polls_0)
  have ih: "poll_loop env json_loads vm cmd is ((outs \<circ> Suc) 0) (tr @ [Sleep 60, Run vm cmd])
      = (Inr (JStr ''FAILED''), (tr @ [Sleep 60, Run vm cmd]) @ polls vm cmd (length is))"
  proof (rule Cons.IH)
    show "\<forall>j<length is. state_of json_loads ((outs \<circ> Suc) j) = Inr (JStr ''RUNNING'')"
      using Cons.prems(1) by simp
    show "\<forall>j<length is. \<exists>st. env ((tr @ [Sleep 60, Run vm cmd]) @ polls vm cmd (Suc j))
        = Returns st ((outs \<circ> Suc) (Suc j)) []"
    proof (intro allI impI)
      fix j assume "j < length is"
      then have "Suc j < length (i # is)" by simp
      with Cons.prems(2) obtain st where
        "env (tr @ polls vm cmd (Suc (Suc j))) = Returns st (outs (Suc (Suc j))) []"
        by blast
      then show "\<exists>st. env ((tr @ [Sleep 60, Run vm cmd]) @ polls vm cmd (Suc j))
        = Returns st ((outs \<circ> Suc) (Suc j)) []"
        by (simp add: polls_Suc)
    qed
  qed
  from run0 have "and_then (json_loads (outs 0)) (\<lambda>execution_json. getitem execution_json ''state'')
      = Inr (JStr ''RUNNING'')"
    by (simp add: state_of_def)
  then show ?case
    using gs ih by (simp add: polls_Suc)
qed

lemma GetExecutionStatus_terminal:
  assumes "k < 10"
    and "\<forall>j\<le>k. \<exists>st. env (tr @ Run vm cmd # polls vm cmd j) = Returns st (outs j) []"
    and "\<forall>j<k. state_of json_loads (outs j) = Inr (JStr ''RUNNING'')"
    and "state_of json_loads (outs k) = Inr s"
    and "s \<noteq> JStr ''RUNNING''"
  shows "GetExecutionStatus env json_loads vm cmd tr = (Inr s, tr @ Run vm cmd # polls vm cmd k)"
proof -
  from assms(2) obtain st where "env (tr @ [Run vm cmd]) = Returns st (outs 0) []"
    by (auto simp add: polls_0 dest: spec [of _ 0])
  then have gs: "get_status env vm cmd tr = (Inr (outs 0), tr @ [Run vm cmd])"
    by (rule get_status_Returns)
  have "poll_loop env json_loads vm cmd [0..<10] (outs 0) (tr @ [Run vm cmd])
      = (Inr s, (tr @ [Run vm cmd]) @ polls vm cmd k)"
  proof (rule poll_loop_terminal)
    show "k < length [0..<10]" using assms(1) by simp
    show "\<forall>j<k. \<exists>st. env ((tr @ [Run vm cmd]) @ polls vm cmd (Suc j)) = Returns st (outs (Suc j)) []"
      using assms(2) by (simp add: Suc_le_eq)
  qed (fact assms)+
  with gs show ?thesis by (simp add: GetExecutionStatus_def)
qed

lemma GetExecutionStatus_exhausted:
  assumes "\<forall>j\<le>10. \<exists>st. env (tr @ Run vm cmd # polls vm cmd j) = Returns st (outs j) []"
    and "\<forall>j<10. state_of json_loads (outs j) = Inr (JStr ''RUNNING'')"
  shows "GetExecutionStatus env json_loads vm cmd tr
           = (Inr (JStr ''FAILED''), tr @ Run vm cmd # polls vm cmd 10)"
proof -
  from assms(1) obtain st where "env (tr @ [Run vm cmd]) = Returns st (outs 0) []"
    by (auto simp add: polls_0 dest: spec [of _ 0])
  then have gs: "get_status env vm cmd tr = (Inr (outs 0), tr @ [Run vm cmd])"
    by (rule get_status_Returns)
  have "poll_loop env json_loads vm cmd [0..<10] (outs 0) (tr @ [Run vm cmd])
      = (Inr (JStr ''FAILED''), (tr @ [Run vm cmd]) @ polls vm cmd (length [0..<10]))"
  proof (rule poll_loop_exhausted)
    show "\<forall>j<length [0..<10]. state_of json_loads (outs j) = Inr (JStr ''RUNNING'')"
      using assms(2) by simp
    show "\<forall>j<length [0..<10]. \<exists>st. env ((tr @ [Run vm cmd]) @ polls vm cmd (Suc j))
        = Returns st (outs (Suc j)) []"
      using assms(1) by (simp add: Suc_le_eq)
  qed
  with gs show ?thesis by (simp add: GetExecutionStatus_def)
qed

lemma state_of_running: "state_of example_loads running_body = Inr (JStr ''RUNNING'')"
  by (simp add: state_of_def example_loads_def running_body_def and_then_def)

text \<open>
  C1. With every response in state \<open>RUNNING\<close> and an empty stderr, both helpers'
  \<open>_GetExecutionStatus\<close> return \<open>FAILED\<close> without raising, but only after eleven status
  requests: one before the loop and one in each of its ten rounds, each of the ten after
  a sleep. The output of the eleventh request is never looked at.
\<close>

theorem GetExecutionStatus_always_running:
  "fst (AgentHelper_GetExecutionStatus always_running example_loads example_agent
          ''ev1'' ''ex1'' ''workloadmanager.googleapis.com'' []) = Inr (JStr ''FAILED'') \<and>
   count_calls (snd (AgentHelper_GetExecutionStatus always_running example_loads example_agent
          ''ev1'' ''ex1'' ''workloadmanager.googleapis.com'' [])) = 11 \<and>
   count_sleeps (snd (AgentHelper_GetExecutionStatus always_running example_loads example_agent
          ''ev1'' ''ex1'' ''workloadmanager.googleapis.com'' [])) = 10 \<and>
   fst (IntegrationHelper_GetExecutionStatus always_running example_loads example_integration
          ''ev1'' ''ex1'' ''workloadmanager.googleapis.com'' []) = Inr (JStr ''FAILED'') \<and>
   count_calls (snd (IntegrationHelper_GetExecutionStatus always_running example_loads
          example_integration ''ev1'' ''ex1'' ''workloadmanager.googleapis.com'' [])) = 11"
proof -
  have "GetExecutionStatus always_running example_loads vm cmd []
      = (Inr (JStr ''FAILED''), [] @ Run vm cmd # polls vm cmd 10)" for vm cmd
    by (rule GetExecutionStatus_exhausted [where outs = "\<lambda>_. running_body"])
       (simp_all add: always_running_def state_of_running)
  then show ?thesis
    by (simp add: AgentHelper_GetExecutionStatus_def IntegrationHelper_GetExecutionStatus_def
        count_calls_Cons count_sleeps_Cons count_calls_polls count_sleeps_polls)
qed

text \<open>
  The eleventh request still has its stderr checked: ten \<open>RUNNING\<close> responses followed
  by a failing request make the function raise instead of returning \<open>FAILED\<close>.
\<close>

lemma GetExecutionStatus_eleventh_request_raises:
  "fst (AgentHelper_GetExecutionStatus
          (scripted (replicate 10 (running_body, []) @ [(succeeded_body, ''timed out'')]))
          example_loads example_agent ''ev1'' ''ex1'' ''workloadmanager.googleapis.com'' [])
     = Inl (EvaluationExecutionError ''Failed to get execution status: timed out'')"
  apply (simp add: AgentHelper_GetExecutionStatus_def GetExecutionStatus_def get_status_def
      RunCommandOnVm_def RunCommandOrRaiseOnFailure_def answer_def scripted_def count_calls_def
      upt_rec [of 0 10] upt_rec[of "Suc _"] upt_rec[of 1] numeral_nat)
  apply (simp add: state_of_running [unfolded state_of_def] get_status_def
      RunCommandOnVm_def RunCommandOrRaiseOnFailure_def answer_def scripted_def count_calls_def succeeded_body_def)
  done

text \<open>
  C6. When the first \<open>k\<close> responses (\<open>k < 10\<close>) are in state \<open>RUNNING\<close> and the next one
  is in any other state \<open>s\<close>, \<open>_GetExecutionStatus\<close> returns \<open>s\<close> right after the request
  that showed it: the trace holds \<open>k + 1\<close> requests and \<open>k\<close> sleeps, none after the last
  request. \<open>VerifyEvaluationRun\<close> then raises \<open>EvaluationExecutionError\<close> exactly when
  \<open>s\<close> is \<open>FAILED\<close> and returns normally for every other state.
\<close>

theorem VerifyEvaluationRun_terminal_state:
  assumes k: "k < 10"
    and list: "ListEvaluations env json_loads (ah_vm h) (endpoint_of h) tr = (Inr evaluation_id, tr1)"
    and run: "RunEvaluation env (ah_vm h)
               (if ah_windows h then RunEvaluation_cmd evaluation_id execution_id (endpoint_of h) else [])
               tr1 = (Inr (), tr2)"
    and cmd: "cmd = (if ah_windows h
                     then GetExecutionStatus_cmd evaluation_id execution_id (endpoint_of h) else [])"
    and answers: "\<forall>j\<le>k. \<exists>st. env (tr2 @ Run (ah_vm h) cmd # polls (ah_vm h) cmd j)
                     = Returns st (outs j) []"
    and running: "\<forall>j<k. state_of json_loads (outs j) = Inr (JStr ''RUNNING'')"
    and final: "state_of json_loads (outs k) = Inr s"
    and terminal: "s \<noteq> JStr ''RUNNING''"
  shows "AgentHelper_GetExecutionStatus env json_loads h evaluation_id execution_id (endpoint_of h) tr2
           = (Inr s, tr2 @ Run (ah_vm h) cmd # polls (ah_vm h) cmd k) \<and>
         count_sleeps (Run (ah_vm h) cmd # polls (ah_vm h) cmd k) = k \<and>
         VerifyEvaluationRun env json_loads execution_id h tr
           = (if s = JStr ''FAILED''
              then Inl (EvaluationExecutionError
                         (''Execution='' @ execution_id @ '' of Evaluation='' @ evaluation_id
                          @ '' failed.''))
              else Inr (),
              tr2 @ Run (ah_vm h) cmd # polls (ah_vm h) cmd k)"
proof -
  have status: "AgentHelper_GetExecutionStatus env json_loads h evaluation_id execution_id
      (endpoint_of h) tr2 = (Inr s, tr2 @ Run (ah_vm h) cmd # polls (ah_vm h) cmd k)"
    unfolding AgentHelper_GetExecutionStatus_def cmd [symmetric]
    by (rule GetExecutionStatus_terminal [OF k answers running final terminal])
  moreover have "count_sleeps (Run (ah_vm h) cmd # polls (ah_vm h) cmd k) = k"
    by (simp add: count_sleeps_Cons count_sleeps_polls)
  moreover have "VerifyEvaluationRun env json_loads execution_id h tr
           = (if s = JStr ''FAILED''
              then Inl (EvaluationExecutionError
                         (''Execution='' @ execution_id @ '' of Evaluation='' @ evaluation_id
                          @ '' failed.''))
              else Inr (),
              tr2 @ Run (ah_vm h) cmd # polls (ah_vm h) cmd k)"
    using list run status
    by (simp add: VerifyEvaluationRun_def del: append.simps)
  ultimately show ?thesis by blast
qed

lemma last_segment_example:
  "last_segment (JStr ''projects/p/locations/l/evaluations/ev1'') = Inr ''ev1''"
  by (simp add: last_segment_def split_char_def)

theorem VerifyEvaluationRun_terminal_state_witness:
  "VerifyEvaluationRun (scripted example_script) example_loads ''ex1'' example_agent []
     = (Inr (),
        [Run example_vm (ListEvaluations_cmd ''workloadmanager.googleapis.com''),
         Run example_vm (RunEvaluation_cmd ''ev1'' ''ex1'' ''workloadmanager.googleapis.com''),
         Run example_vm (GetExecutionStatus_cmd ''ev1'' ''ex1'' ''workloadmanager.googleapis.com''),
         Sleep 60,
         Run example_vm (GetExecutionStatus_cmd ''ev1'' ''ex1'' ''workloadmanager.googleapis.com''),
         Sleep 60,
         Run example_vm (GetExecutionStatus_cmd ''ev1'' ''ex1'' ''workloadmanager.googleapis.com'')])"
proof -
  let ?env = "scripted example_script"
  let ?ep = "''workloadmanager.googleapis.com''"
  let ?cmd = "GetExecutionStatus_cmd ''ev1'' ''ex1'' ?ep"
  let ?tr1 = "[Run example_vm (ListEvaluations_cmd ?ep)]"
  let ?tr2 = "?tr1 @ [Run example_vm (RunEvaluation_cmd ''ev1'' ''ex1'' ?ep)]"
  let ?outs = "\<lambda>j::nat. if j < 2 then running_body else succeeded_body"
  have vm: "ah_vm example_agent = example_vm" and w: "ah_windows example_agent"
    and ep: "endpoint_of example_agent = ?ep"
    by (simp_all add: example_agent_def AgentHelper_init_def endpoint_of_def)
  have k: "(2::nat) < 10" by simp
  have list: "ListEvaluations ?env example_loads (ah_vm example_agent) (endpoint_of example_agent) []
      = (Inr ''ev1'', ?tr1)"
    by (simp add: vm ep ListEvaluations_def RunCommandOnVm_def RunCommandOrRaiseOnFailure_def
        answer_def scripted_def example_script_def count_calls_def and_then_def
        example_loads_def list_body_def last_segment_example)
  have run: "RunEvaluation ?env (ah_vm example_agent)
      (if ah_windows example_agent
       then RunEvaluation_cmd ''ev1'' ''ex1'' (endpoint_of example_agent) else []) ?tr1
      = (Inr (), ?tr2)"
    by (simp add: vm w ep RunEvaluation_def RunCommandOnVm_def RunCommandOrRaiseOnFailure_def
        answer_def scripted_def example_script_def count_calls_def)
  have cmd: "?cmd = (if ah_windows example_agent
      then GetExecutionStatus_cmd ''ev1'' ''ex1'' (endpoint_of example_agent) else [])"
    by (simp add: w ep)
  have answers: "\<forall>j\<le>2. \<exists>st. ?env (?tr2 @ Run (ah_vm example_agent) ?cmd
        # polls (ah_vm example_agent) ?cmd j) = Returns st (?outs j) []"
  proof (intro allI impI)
    fix j :: nat assume "j \<le> 2"
    then consider "j = 0" | "j = 1" | "j = 2" by linarith
    then show "\<exists>st. ?env (?tr2 @ Run (ah_vm example_agent) ?cmd
        # polls (ah_vm example_agent) ?cmd j) = Returns st (?outs j) []"
      by cases
        (simp_all add: scripted_def example_script_def count_calls_append count_calls_Cons
          count_calls_polls)
  qed
  have running: "\<forall>j<2. state_of example_loads (?outs j) = Inr (JStr ''RUNNING'')"
    by (simp add: state_of_running)
  have final: "state_of example_loads (?outs 2) = Inr (JStr ''SUCCEEDED'')"
    by (simp add: state_of_def example_loads_def succeeded_body_def and_then_def)
  have terminal: "JStr ''SUCCEEDED'' \<noteq> JStr ''RUNNING''" by simp
  from VerifyEvaluationRun_terminal_state [OF k list run cmd answers running final terminal]
  show ?thesis
    by (simp add: vm polls_def numeral_2_eq_2)
qed

subsection \<open>\<open>VerifyAgentRunning\<close>\<close>







subsection \<open>What happens to stderr\<close>





subsection \<open>Substitution and escaping in rendered scripts\<close>

















subsection \<open>\<open>ProcessLoadTestResult\<close>\<close>





lemma collect_rows_skips:
  "filter nine_fields rows = [] \<Longrightarrow> collect_rows rows acc = Inr acc"
  by (induction rows) (simp_all add: nine_fields_def Let_def split: if_splits)




lemma int_py_examples:
  "int_py ''100'' = Inr 100" "int_py ''-'' = Inl (ValueError ''-'')" "int_py ''25'' = Inr 25"
  by (simp_all add: int_py_def strip_py_def is_space_def is_digit_def nat_of_digits_def)

lemma split_example:
  "split_char CHR '','' ''100,-,-,5,0,2,1,10,20''
     = [''100'', ''-'', ''-'', ''5'', ''0'', ''2'', ''1'', ''10'', ''20'']"
  by (simp add: split_char_def)




lemma GetLoadTestResult_scripted:
  "GetLoadTestResult (scripted ((out, []) # rest)) h []
     = (Inr out, [Run (lt_vm_sqlserver h)
                    (''Get-Content -Path '' @ lt_test_result_path h @ '' -Encoding ascii'')])"
  by (simp add: GetLoadTestResult_def RunCommandOrRaiseOnFailure_def answer_def scripted_def
      count_calls_def)


text \<open>
  C9. When no row after the header has exactly nine fields, \<open>ProcessLoadTestResult\<close>
  raises the \<open>ValueError\<close> of rounding NaN: it does not succeed, the helper object keeps
  the means it had, and the result file is not deleted.
\<close>

theorem ProcessLoadTestResult_no_rows:
  assumes fetch: "GetLoadTestResult env h tr = (Inr out, tr1)"
    and none: "\<forall>row \<in> set (tl (split_char CHR ''\<newline>'' out)). length (split_char CHR '','' row) \<noteq> 9"
  shows "ProcessLoadTestResult env h agent_installed tr
           = (Inl (ValueError ''cannot convert float NaN to integer''), h, tr1)"
proof -
  from none have "filter nine_fields (tl (split_char CHR ''\<newline>'' out)) = []"
    by (simp add: filter_empty_conv nine_fields_def)
  then have "collect_rows (tl (split_char CHR ''\<newline>'' out)) no_samples = Inr no_samples"
    by (rule collect_rows_skips)
  then have "load_test_means out = Inl (ValueError ''cannot convert float NaN to integer'')"
    by (simp add: load_test_means_def and_then_def round_mean_def no_samples_def)
  with fetch show ?thesis by (simp add: ProcessLoadTestResult_def)
qed

theorem ProcessLoadTestResult_no_rows_witness:
  "ProcessLoadTestResult
     (scripted [(''trans,a,b,reqs,timeouts,waits,deadlocks,wait,latch\<newline>1,2,3\<newline>'', [])])
     example_loadtest False []
   = (Inl (ValueError ''cannot convert float NaN to integer''), example_loadtest,
      [Run (lt_vm_sqlserver example_loadtest)
         (''Get-Content -Path '' @ lt_test_result_path example_loadtest @ '' -Encoding ascii'')])"
proof -
  let ?out = "''trans,a,b,reqs,timeouts,waits,deadlocks,wait,latch\<newline>1,2,3\<newline>''"
  have none: "\<forall>row \<in> set (tl (split_char CHR ''\<newline>'' ?out)). length (split_char CHR '','' row) \<noteq> 9"
    by (simp add: split_char_def)
  from ProcessLoadTestResult_no_rows [OF GetLoadTestResult_scripted none]
  show ?thesis .
qed

subsection \<open>\<open>GenerateLoadTestResult\<close>\<close>

lemma join_lines_simps:
  "join_lines [] = []"
  "join_lines (l # ls) = l @ ''\<newline>'' @ join_lines ls"
  "join_lines (xs @ ys) = join_lines xs @ join_lines ys"
  by (simp_all add: join_lines_def)

lemma diff_line_eq:
  "diff_line float_text label diff mean result
     = Inr (result @ join_lines (optional_line (mean \<noteq> 0)
                                   (label @ '' '' @ float_text (diff * 100) mean)))"
  by (simp add: diff_line_def truediv_text_def and_then_def optional_line_def join_lines_def)

lemma GenerateLoadTestResult_lines:
  "GenerateLoadTestResult float_text h = Inr (join_lines (report_lines float_text h))"
  unfolding GenerateLoadTestResult_def Let_def diff_line_eq and_then_def report_lines_def
  by (simp add: join_lines_simps)

lemma split_acc_line:
  "sep \<notin> set l \<Longrightarrow> split_acc sep cur (l @ sep # rest) = (cur @ l) # split_acc sep [] rest"
  by (induction l arbitrary: cur) auto

lemma split_char_join_lines:
  "\<forall>l \<in> set ls. CHR ''\<newline>'' \<notin> set l \<Longrightarrow>
   split_char CHR ''\<newline>'' (join_lines ls) = ls @ [[]]"
proof (induction ls)
  case Nil
  then show ?case by (simp add: split_char_def join_lines_def)
next
  case (Cons l ls)
  then have "split_acc CHR ''\<newline>'' [] (l @ CHR ''\<newline>'' # join_lines ls)
      = ([] @ l) # split_acc CHR ''\<newline>'' [] (join_lines ls)"
    by (intro split_acc_line) simp
  with Cons show ?case by (simp add: split_char_def join_lines_simps)
qed

lemma of_char_digit_char: "d < 10 \<Longrightarrow> of_char (digit_char d) = 48 + d"
  by (simp add: digit_char_def)

lemma str_nat_digits: "c \<in> set (str_nat n) \<Longrightarrow> 48 \<le> (of_char c :: nat) \<and> (of_char c :: nat) \<le> 57"
proof (induction n rule: str_nat.induct)
  case (1 n)
  show ?case
  proof (cases "n < 10")
    case True
    with 1(2) have "c = digit_char n" by (simp add: str_nat.simps)
    with True show ?thesis by (simp add: of_char_digit_char)
  next
    case False
    with 1(2) have "c \<in> set (str_nat (n div 10)) \<or> c = digit_char (n mod 10)"
      by (subst (asm) str_nat.simps) auto
    then show ?thesis
    proof
      assume "c \<in> set (str_nat (n div 10))"
      with 1(1) False show ?thesis by simp
    next
      assume "c = digit_char (n mod 10)"
      then show ?thesis by (simp add: of_char_digit_char)
    qed
  qed
qed

lemma str_nat_not_Nil: "str_nat n \<noteq> []"
  by (subst str_nat.simps) simp

lemma nat_of_digits_snoc:
  "nat_of_digits (ds @ [c]) = 10 * nat_of_digits ds + (of_char c - 48)"
  by (simp add: nat_of_digits_def)

lemma nat_of_digits_str_nat: "nat_of_digits (str_nat n) = n"
proof (induction n rule: str_nat.induct)
  case (1 n)
  show ?case
  proof (cases "n < 10")
    case True
    then have "str_nat n = [digit_char n]" by (simp add: str_nat.simps)
    with True show ?thesis by (simp add: nat_of_digits_def of_char_digit_char)
  next
    case False
    then have "str_nat n = str_nat (n div 10) @ [digit_char (n mod 10)]"
      by (subst str_nat.simps) simp
    with 1 False show ?thesis
      by (simp add: nat_of_digits_snoc of_char_digit_char)
  qed
qed

lemma str_nat_inj: "str_nat a = str_nat b \<Longrightarrow> a = b"
  by (metis nat_of_digits_str_nat)

lemma str_nat_no_minus: "str_nat n \<noteq> CHR ''-'' # ds"
proof
  assume "str_nat n = CHR ''-'' # ds"
  then have "CHR ''-'' \<in> set (str_nat n)" by simp
  from str_nat_digits [OF this] show False by simp
qed

lemma str_int_inj: "str_int a = str_int b \<longleftrightarrow> a = b"
proof
  assume eq: "str_int a = str_int b"
  show "a = b"
  proof (cases "a < 0"; cases "b < 0")
    assume "a < 0" "b < 0"
    with eq have "str_nat (nat (- a)) = str_nat (nat (- b))" by (simp add: str_int_def)
    then have "nat (- a) = nat (- b)" by (rule str_nat_inj)
    with \<open>a < 0\<close> \<open>b < 0\<close> show ?thesis by simp
  next
    assume "a < 0" "\<not> b < 0"
    with eq str_nat_no_minus [of "nat b" "str_nat (nat (- a))"] show ?thesis
      by (simp add: str_int_def)
  next
    assume "\<not> a < 0" "b < 0"
    with eq str_nat_no_minus [of "nat a" "str_nat (nat (- b))"] show ?thesis
      by (simp add: str_int_def)
  next
    assume "\<not> a < 0" "\<not> b < 0"
    with eq have "str_nat (nat a) = str_nat (nat b)" by (simp add: str_int_def)
    then have "nat a = nat b" by (rule str_nat_inj)
    with \<open>\<not> a < 0\<close> \<open>\<not> b < 0\<close> show ?thesis by simp
  qed
qed simp

lemma str_int_no_newline: "CHR ''\<newline>'' \<notin> set (str_int i)"
proof
  assume "CHR ''\<newline>'' \<in> set (str_int i)"
  then have "CHR ''\<newline>'' \<in> set (str_nat (nat (- i))) \<or> CHR ''\<newline>'' \<in> set (str_nat (nat i))"
    by (auto simp add: str_int_def split: if_splits)
  then show False using str_nat_digits [of "CHR ''\<newline>''"] by auto
qed

lemma report_lines_no_newline:
  assumes "\<forall>a b. CHR ''\<newline>'' \<notin> set (float_text a b)"
  shows "\<forall>l \<in> set (report_lines float_text h). CHR ''\<newline>'' \<notin> set l"
  using assms by (auto simp add: report_lines_def optional_line_def str_int_no_newline)

lemma report_split:
  assumes "\<forall>a b. CHR ''\<newline>'' \<notin> set (float_text a b)"
  shows "\<exists>report. GenerateLoadTestResult float_text h = Inr report \<and>
           split_char CHR ''\<newline>'' report = report_lines float_text h @ [[]]"
  using split_char_join_lines [OF report_lines_no_newline [OF assms, of h]]
  by (simp add: GenerateLoadTestResult_lines)

lemma filter_optional_line:
  "filter P (optional_line present line) = optional_line (present \<and> P line) line"
  by (simp add: optional_line_def)

lemma optional_line_False: "optional_line False line = []" "optional_line (c \<and> False) line = []"
  by (simp_all add: optional_line_def)

lemma labelled_diff_lines:
  "filter (\<lambda>line. startswith line ''diff_trans_per_sec:'') (report_lines float_text h @ [[]])
     = optional_line (mean_trans_per_sec h \<noteq> 0)
         (''diff_trans_per_sec: ''
          @ float_text (\<bar>mean_trans_per_sec h - mean_trans_per_sec_agent_installed h\<bar> * 100) (mean_trans_per_sec h))"
  "filter (\<lambda>line. startswith line ''diff_lock_reqs_per_sec:'') (report_lines float_text h @ [[]])
     = optional_line (mean_lock_reqs_per_sec h \<noteq> 0)
         (''diff_lock_reqs_per_sec: ''
          @ float_text (\<bar>mean_lock_reqs_per_sec h - mean_lock_reqs_per_sec_agent_installed h\<bar> * 100) (mean_lock_reqs_per_sec h))"
  "filter (\<lambda>line. startswith line ''diff_lock_timeouts_per_sec:'') (report_lines float_text h @ [[]])
     = optional_line (mean_lock_timeouts_per_sec h \<noteq> 0)
         (''diff_lock_timeouts_per_sec: ''
          @ float_text (\<bar>mean_lock_timeouts_per_sec h - mean_lock_timeouts_per_sec_agent_installed h\<bar> * 100) (mean_lock_timeouts_per_sec h))"
  "filter (\<lambda>line. startswith line ''diff_lock_waits_per_sec:'') (report_lines float_text h @ [[]])
     = optional_line (mean_lock_waits_per_sec h \<noteq> 0)
         (''diff_lock_waits_per_sec: ''
          @ float_text (\<bar>mean_lock_waits_per_sec h - mean_lock_waits_per_sec_agent_installed h\<bar> * 100) (mean_lock_waits_per_sec h))"
  "filter (\<lambda>line. startswith line ''diff_deadlocks_per_sec:'') (report_lines float_text h @ [[]])
     = optional_line (mean_deadlocks_per_sec h \<noteq> 0)
         (''diff_deadlocks_per_sec: ''
          @ float_text (\<bar>mean_deadlocks_per_sec h - mean_deadlocks_per_sec_agent_installed h\<bar> * 100) (mean_deadlocks_per_sec h))"
  "filter (\<lambda>line. startswith line ''diff_wait_time:'') (report_lines float_text h @ [[]])
     = optional_line (mean_wait_time h \<noteq> 0)
         (''diff_wait_time: ''
          @ float_text (\<bar>mean_wait_time h - mean_wait_time_agent_installed h\<bar> * 100) (mean_wait_time h))"
  "filter (\<lambda>line. startswith line ''diff_latch_wait_time:'') (report_lines float_text h @ [[]])
     = optional_line (mean_latch_wait_time h \<noteq> 0)
         (''diff_latch_wait_time: ''
          @ float_text (\<bar>mean_latch_wait_time h - mean_latch_wait_time_agent_installed h\<bar> * 100) (mean_latch_wait_time h))"
  by (simp_all add: report_lines_def startswith_def filter_optional_line optional_line_False)

lemma example_float_text_no_newline: "\<forall>a b. CHR ''\<newline>'' \<notin> set (example_float_text a b)"
  using str_nat_digits [of "CHR ''\<newline>''"]
  by (auto simp add: example_float_text_def str_int_no_newline)

lemma str_int_examples:
  "str_int 200 = ''200''" "str_int 0 = ''0''" "str_int 3 = ''3''" "str_int (- 15) = ''-15''"
  by (simp_all add: str_int_def str_nat.simps digit_char_def char_of_eq_iff)

lemma example_float_text_values:
  "example_float_text 5000 200 = ''25.0''" "example_float_text 300 12 = ''25.0''"
  by (simp_all add: example_float_text_def str_int_def str_nat.simps digit_char_def char_of_eq_iff)

text \<open>
  C7. \<open>GenerateLoadTestResult\<close> never fails, so no division by a zero baseline mean is
  evaluated, and for each of the seven metrics the report holds the percentage line
  \<open>diff_\<dots>: \<bar>baseline - agent_installed\<bar> * 100 / baseline\<close> exactly when that metric's
  baseline mean is not zero. (The text of a float is taken not to contain a newline.)
\<close>

theorem GenerateLoadTestResult_diff_lines:
  assumes "\<forall>a b. CHR ''\<newline>'' \<notin> set (float_text a b)"
  shows "\<exists>report. GenerateLoadTestResult float_text h = Inr report \<and>
           filter (\<lambda>line. startswith line ''diff_trans_per_sec:'') (split_char CHR ''\<newline>'' report)
             = (if mean_trans_per_sec h \<noteq> 0
                then [''diff_trans_per_sec: ''
                      @ float_text (\<bar>mean_trans_per_sec h - mean_trans_per_sec_agent_installed h\<bar> * 100) (mean_trans_per_sec h)]
                else []) \<and>
           filter (\<lambda>line. startswith line ''diff_lock_reqs_per_sec:'') (split_char CHR ''\<newline>'' report)
             = (if mean_lock_reqs_per_sec h \<noteq> 0
                then [''diff_lock_reqs_per_sec: ''
                      @ float_text (\<bar>mean_lock_reqs_per_sec h - mean_lock_reqs_per_sec_agent_installed h\<bar> * 100) (mean_lock_reqs_per_sec h)]
                else []) \<and>
           filter (\<lambda>line. startswith line ''diff_lock_timeouts_per_sec:'') (split_char CHR ''\<newline>'' report)
             = (if mean_lock_timeouts_per_sec h \<noteq> 0
                then [''diff_lock_timeouts_per_sec: ''
                      @ float_text (\<bar>mean_lock_timeouts_per_sec h - mean_lock_timeouts_per_sec_agent_installed h\<bar> * 100) (mean_lock_timeouts_per_sec h)]
                else []) \<and>
           filter (\<lambda>line. startswith line ''diff_lock_waits_per_sec:'') (split_char CHR ''\<newline>'' report)
             = (if mean_lock_waits_per_sec h \<noteq> 0
                then [''diff_lock_waits_per_sec: ''
                      @ float_text (\<bar>mean_lock_waits_per_sec h - mean_lock_waits_per_sec_agent_installed h\<bar> * 100) (mean_lock_waits_per_sec h)]
                else []) \<and>
           filter (\<lambda>line. startswith line ''diff_deadlocks_per_sec:'') (split_char CHR ''\<newline>'' report)
             = (if mean_deadlocks_per_sec h \<noteq> 0
                then [''diff_deadlocks_per_sec: ''
                      @ float_text (\<bar>mean_deadlocks_per_sec h - mean_deadlocks_per_sec_agent_installed h\<bar> * 100) (mean_deadlocks_per_sec h)]
                else []) \<and>
           filter (\<lambda>line. startswith line ''diff_wait_time:'') (split_char CHR ''\<newline>'' report)
             = (if mean_wait_time h \<noteq> 0
                then [''diff_wait_time: ''
                      @ float_text (\<bar>mean_wait_time h - mean_wait_time_agent_installed h\<bar> * 100) (mean_wait_time h)]
                else []) \<and>
           filter (\<lambda>line. startswith line ''diff_latch_wait_time:'') (split_char CHR ''\<newline>'' report)
             = (if mean_latch_wait_time h \<noteq> 0
                then [''diff_latch_wait_time: ''
                      @ float_text (\<bar>mean_latch_wait_time h - mean_latch_wait_time_agent_installed h\<bar> * 100) (mean_latch_wait_time h)]
                else [])"
proof -
  from report_split [OF assms, of h] obtain report where
    report: "GenerateLoadTestResult float_text h = Inr report"
    and lines: "split_char CHR ''\<newline>'' report = report_lines float_text h @ [[]]"
    by blast
  show ?thesis
    by (intro exI [of _ report]) (simp only: report lines labelled_diff_lines optional_line_def simp_thms)
qed

theorem GenerateLoadTestResult_diff_lines_witness:
  "\<exists>report. GenerateLoadTestResult example_float_text example_means = Inr report \<and>
     filter (\<lambda>line. startswith line ''diff_trans_per_sec:'') (split_char CHR ''\<newline>'' report)
       = [''diff_trans_per_sec: 25.0''] \<and>
     filter (\<lambda>line. startswith line ''diff_lock_reqs_per_sec:'') (split_char CHR ''\<newline>'' report)
       = [] \<and>
     filter (\<lambda>line. startswith line ''diff_wait_time:'') (split_char CHR ''\<newline>'' report)
       = [''diff_wait_time: 25.0'']"
proof -
  have means: "mean_trans_per_sec example_means = 200"
    "mean_trans_per_sec_agent_installed example_means = 150"
    "mean_lock_reqs_per_sec example_means = 0"
    "mean_wait_time example_means = 12" "mean_wait_time_agent_installed example_means = 15"
    by (simp_all add: example_means_def)
  from GenerateLoadTestResult_diff_lines [OF example_float_text_no_newline, of example_means]
  obtain report where
    "GenerateLoadTestResult example_float_text example_means = Inr report"
    "filter (\<lambda>line. startswith line ''diff_trans_per_sec:'') (split_char CHR ''\<newline>'' report)
       = [''diff_trans_per_sec: '' @ example_float_text (\<bar>200 - 150\<bar> * 100) 200]"
    "filter (\<lambda>line. startswith line ''diff_lock_reqs_per_sec:'') (split_char CHR ''\<newline>'' report)
       = []"
    "filter (\<lambda>line. startswith line ''diff_wait_time:'') (split_char CHR ''\<newline>'' report)
       = [''diff_wait_time: '' @ example_float_text (\<bar>12 - 15\<bar> * 100) 12]"
    unfolding means by auto
  then show ?thesis
    by (intro exI [of _ report]) (simp add: example_float_text_values)
qed

text \<open>
  C10. The report has exactly one line labelled
  \<open>mean_lock_reqs_per_sec_agent_installed\<close>, and the value it shows is the field
  \<open>mean_lock_waits_per_sec_agent_installed\<close>; it agrees with the line that would show the
  field \<open>mean_lock_reqs_per_sec_agent_installed\<close> only when the two fields are equal.
\<close>

theorem lock_reqs_agent_installed_line:
  assumes "\<forall>a b. CHR ''\<newline>'' \<notin> set (float_text a b)"
  shows "\<exists>report. GenerateLoadTestResult float_text h = Inr report \<and>
           filter (\<lambda>line. startswith line ''mean_lock_reqs_per_sec_agent_installed:'')
             (split_char CHR ''\<newline>'' report)
             = [''mean_lock_reqs_per_sec_agent_installed: ''
                @ str_int (mean_lock_waits_per_sec_agent_installed h)] \<and>
           ([''mean_lock_reqs_per_sec_agent_installed: ''
             @ str_int (mean_lock_waits_per_sec_agent_installed h)]
              = [''mean_lock_reqs_per_sec_agent_installed: ''
                 @ str_int (mean_lock_reqs_per_sec_agent_installed h)]
            \<longleftrightarrow> mean_lock_waits_per_sec_agent_installed h
                  = mean_lock_reqs_per_sec_agent_installed h)"
proof -
  from report_split [OF assms, of h] obtain report where
    report: "GenerateLoadTestResult float_text h = Inr report"
    and lines: "split_char CHR ''\<newline>'' report = report_lines float_text h @ [[]]"
    by blast
  have "filter P (split_char CHR ''\<newline>'' report) = filter P (report_lines float_text h @ [[]])"
    for P
    by (simp only: lines)
  with report show ?thesis
    by (intro exI [of _ report])
       (simp add: report_lines_def startswith_def filter_optional_line optional_line_False
          str_int_inj)
qed

theorem lock_reqs_agent_installed_line_witness:
  "\<exists>report. GenerateLoadTestResult example_float_text example_means = Inr report \<and>
     filter (\<lambda>line. startswith line ''mean_lock_reqs_per_sec_agent_installed:'')
       (split_char CHR ''\<newline>'' report)
       = [''mean_lock_reqs_per_sec_agent_installed: 3''] \<and>
     mean_lock_reqs_per_sec_agent_installed example_means = 7 \<and>
     mean_lock_waits_per_sec_agent_installed example_means = 3"
proof -
  have means: "mean_lock_reqs_per_sec_agent_installed example_means = 7"
    "mean_lock_waits_per_sec_agent_installed example_means = 3"
    by (simp_all add: example_means_def)
  from lock_reqs_agent_installed_line [OF example_float_text_no_newline, of example_means]
  obtain report where
    "GenerateLoadTestResult example_float_text example_means = Inr report"
    "filter (\<lambda>line. startswith line ''mean_lock_reqs_per_sec_agent_installed:'')
       (split_char CHR ''\<newline>'' report)
       = [''mean_lock_reqs_per_sec_agent_installed: '' @ str_int 3]"
    unfolding means by auto
  then show ?thesis
    by (intro exI [of _ report]) (simp add: means str_int_examples)
qed

end
